theory Spec2Isabelle
  imports Main "HOL-Library.Word"
begin

unbundle bit_operations_syntax

section \<open>The CH432 dual UART driver (ch432.c)\<close>

text \<open>
  A shallow embedding of the SPI serial driver for the CH432 dual UART. The driver talks
  to the chip through single register reads and writes and through burst writes; it
  keeps software state per channel (\<open>struct ch43x_one\<close>) and per controller
  (\<open>struct ch43x_port\<close>). Every effect that leaves the driver (a bus write, a delay,
  a call into the serial core) is recorded, in order, in a trace.
\<close>

subsection \<open>Machine types and register constants\<close>

type_synonym u8 = "8 word"
type_synonym u32 = "32 word"

text \<open>Register indices. They are added to \<open>line * 8\<close> to address a channel.\<close>

definition CH43X_RHR_REG :: nat where "CH43X_RHR_REG = 0x00"
definition CH43X_THR_REG :: nat where "CH43X_THR_REG = 0x00"
definition CH43X_IER_REG :: nat where "CH43X_IER_REG = 0x01"
definition CH43X_IIR_REG :: nat where "CH43X_IIR_REG = 0x02"
definition CH43X_FCR_REG :: nat where "CH43X_FCR_REG = 0x02"
definition CH43X_LCR_REG :: nat where "CH43X_LCR_REG = 0x03"
definition CH43X_MCR_REG :: nat where "CH43X_MCR_REG = 0x04"
definition CH43X_LSR_REG :: nat where "CH43X_LSR_REG = 0x05"
definition CH43X_MSR_REG :: nat where "CH43X_MSR_REG = 0x06"
definition CH43X_SPR_REG :: nat where "CH43X_SPR_REG = 0x07"
definition CH43X_DLL_REG :: nat where "CH43X_DLL_REG = 0x00"
definition CH43X_DLH_REG :: nat where "CH43X_DLH_REG = 0x01"

text \<open>
  Bit masks. A C macro has no width of its own, so each mask is a word of any length;
  the place of use fixes it (\<open>u8\<close> for a register byte, \<open>u32\<close> for an
  \<open>unsigned int\<close>).
\<close>

definition CH43X_IER_RDI_BIT :: "'a::len word" where "CH43X_IER_RDI_BIT = 0x01"
definition CH43X_IER_THRI_BIT :: "'a::len word" where "CH43X_IER_THRI_BIT = 0x02"
definition CH43X_IER_RLSI_BIT :: "'a::len word" where "CH43X_IER_RLSI_BIT = 0x04"
definition CH43X_IER_MSI_BIT :: "'a::len word" where "CH43X_IER_MSI_BIT = 0x08"
definition CH43X_IER_RESET_BIT :: "'a::len word" where "CH43X_IER_RESET_BIT = 0x80"
definition CH43X_IER_LOWPOWER_BIT :: "'a::len word" where "CH43X_IER_LOWPOWER_BIT = 0x40"
definition CH43X_IER_SLEEP_BIT :: "'a::len word" where "CH43X_IER_SLEEP_BIT = 0x20"
definition CH43X_IER_CK2X_BIT :: "'a::len word" where "CH43X_IER_CK2X_BIT = 0x20"

definition CH43X_FCR_FIFO_BIT :: "'a::len word" where "CH43X_FCR_FIFO_BIT = 0x01"
definition CH43X_FCR_RXRESET_BIT :: "'a::len word" where "CH43X_FCR_RXRESET_BIT = 0x02"
definition CH43X_FCR_TXRESET_BIT :: "'a::len word" where "CH43X_FCR_TXRESET_BIT = 0x04"
definition CH43X_FCR_RXLVLH_BIT :: "'a::len word" where "CH43X_FCR_RXLVLH_BIT = 0x80"

definition CH43X_IIR_RDI_SRC :: "'a::len word" where "CH43X_IIR_RDI_SRC = 0x04"
definition CH43X_IIR_RLSE_SRC :: "'a::len word" where "CH43X_IIR_RLSE_SRC = 0x06"

definition CH43X_LCR_STOPLEN_BIT :: "'a::len word" where "CH43X_LCR_STOPLEN_BIT = 0x04"
definition CH43X_LCR_PARITY_BIT :: "'a::len word" where "CH43X_LCR_PARITY_BIT = 0x08"
definition CH43X_LCR_ODDPARITY_BIT :: "'a::len word" where "CH43X_LCR_ODDPARITY_BIT = 0x00"
definition CH43X_LCR_EVENPARITY_BIT :: "'a::len word" where "CH43X_LCR_EVENPARITY_BIT = 0x10"
definition CH43X_LCR_MARKPARITY_BIT :: "'a::len word" where "CH43X_LCR_MARKPARITY_BIT = 0x20"
definition CH43X_LCR_SPACEPARITY_BIT :: "'a::len word" where "CH43X_LCR_SPACEPARITY_BIT = 0x30"
definition CH43X_LCR_DLAB_BIT :: "'a::len word" where "CH43X_LCR_DLAB_BIT = 0x80"
definition CH43X_LCR_WORD_LEN_5 :: "'a::len word" where "CH43X_LCR_WORD_LEN_5 = 0x00"
definition CH43X_LCR_WORD_LEN_6 :: "'a::len word" where "CH43X_LCR_WORD_LEN_6 = 0x01"
definition CH43X_LCR_WORD_LEN_7 :: "'a::len word" where "CH43X_LCR_WORD_LEN_7 = 0x02"
definition CH43X_LCR_WORD_LEN_8 :: "'a::len word" where "CH43X_LCR_WORD_LEN_8 = 0x03"
definition CH43X_LCR_CONF_MODE_A :: "'a::len word" where
  "CH43X_LCR_CONF_MODE_A = CH43X_LCR_DLAB_BIT"

definition CH43X_MCR_RTS_BIT :: "'a::len word" where "CH43X_MCR_RTS_BIT = 0x02"
definition CH43X_MCR_OUT2 :: "'a::len word" where "CH43X_MCR_OUT2 = 0x08"
definition CH43X_MCR_AFE :: "'a::len word" where "CH43X_MCR_AFE = 0x20"

definition CH43X_LSR_DR_BIT :: "'a::len word" where "CH43X_LSR_DR_BIT = 0x01"
definition CH43X_LSR_OE_BIT :: "'a::len word" where "CH43X_LSR_OE_BIT = 0x02"
definition CH43X_LSR_PE_BIT :: "'a::len word" where "CH43X_LSR_PE_BIT = 0x04"
definition CH43X_LSR_FE_BIT :: "'a::len word" where "CH43X_LSR_FE_BIT = 0x08"
definition CH43X_LSR_BI_BIT :: "'a::len word" where "CH43X_LSR_BI_BIT = 0x10"
definition CH43X_LSR_BRK_ERROR_MASK :: "'a::len word" where "CH43X_LSR_BRK_ERROR_MASK = 0x1E"
definition CH43X_LSR_THRE_BIT :: "'a::len word" where "CH43X_LSR_THRE_BIT = 0x20"
definition CH43X_LSR_TEMT_BIT :: "'a::len word" where "CH43X_LSR_TEMT_BIT = 0x40"
definition CH43X_LSR_FIFOE_BIT :: "'a::len word" where "CH43X_LSR_FIFOE_BIT = 0x80"

definition CH43X_FIFO_SIZE :: int where "CH43X_FIFO_SIZE = 16"
definition CH43X_REG_SHIFT :: nat where "CH43X_REG_SHIFT = 2"
definition CRYSTAL_FREQ :: nat where "CRYSTAL_FREQ = 22118400"

subsection \<open>State\<close>

text \<open>The flag that accompanies a received byte into the tty layer.\<close>

datatype tty_flag = TTY_NORMAL | TTY_BREAK | TTY_FRAME | TTY_PARITY | TTY_OVERRUN

text \<open>
  What leaves the driver, in the order it happens:
  a two byte \<open>spi_write\<close> (command byte, value), the burst of \<open>ch43x_raw_write\<close>
  (command byte, payload), the delays, and the calls into the serial core.
\<close>

datatype event =
    Spi_Write u8 u8
  | Spi_Burst u8 "u8 list"
  | Mdelay u32
  | Udelay nat
  | Uart_Insert_Char u32 u32 u32 tty_flag
  | Tty_Flip_Buffer_Push
  | Uart_Write_Wakeup
  | Uart_Handle_Cts_Change bool
  | Uart_Update_Timeout u32 int

record uart_icount =
  rx :: u32
  tx :: u32
  frame :: u32
  overrun :: u32
  parity :: u32
  brk :: u32

text \<open>
  The transmit ring of the serial core (\<open>port->state->xmit\<close>): \<open>head\<close> and
  \<open>tail\<close> are C \<open>int\<close>s; the storage is an array indexed by them.
\<close>

record circ_buf =
  buf :: "nat \<Rightarrow> u8"
  head :: int
  tail :: int

text \<open>
  The fields of \<open>struct uart_port\<close> the driver uses. \<open>tx_stopped\<close> is what
  \<open>uart_tx_stopped(port)\<close> answers (a state of the tty layer).
\<close>

record uart_port =
  line :: nat
  uartclk :: u32
  read_status_mask :: u32
  ignore_status_mask :: u32
  x_char :: u8
  icount :: uart_icount
  xmit :: circ_buf
  tx_stopped :: bool

record serial_rs485 =
  flags :: u32
  delay_rts_before_send :: u32
  delay_rts_after_send :: u32

record ch43x_one =
  port :: uart_port
  rs485 :: serial_rs485
  msr_reg :: u8
  ier :: u8
  mcr_force :: u8

text \<open>
  The controller. \<open>regs\<close> is the register file of the chip behind \<open>spi_dev\<close>,
  addressed by \<open>reg + line * 8\<close>: a read answers the byte the register holds, a
  write stores it. \<open>s_buf\<close> is the scratch array \<open>buf[65536]\<close>.
\<close>

record ch43x_port =
  regs :: "nat \<Rightarrow> u8"
  s_buf :: "nat \<Rightarrow> u8"
  trace :: "event list"

subsection \<open>Register access\<close>

text \<open>The command byte of a read: \<open>0xFD & ((reg + line * 8) << 2)\<close>, cut to a byte.\<close>

definition ch43x_rd_cmd :: "nat \<Rightarrow> nat \<Rightarrow> u8" where
  "ch43x_rd_cmd ln reg =
     ucast ((0xFD :: u32) AND push_bit CH43X_REG_SHIFT (of_nat (reg + ln * 0x08)))"

text \<open>The command byte of a write: \<open>0x02 | ((reg + line * 8) << 2)\<close>, cut to a byte.\<close>

definition ch43x_wr_cmd :: "nat \<Rightarrow> nat \<Rightarrow> u8" where
  "ch43x_wr_cmd ln reg =
     ucast ((0x02 :: u32) OR push_bit CH43X_REG_SHIFT (of_nat (reg + ln * 0x08)))"

definition ch43x_port_read_specify :: "uart_port \<Rightarrow> nat \<Rightarrow> nat \<Rightarrow> ch43x_port \<Rightarrow> u8" where
  "ch43x_port_read_specify p portnum reg s = regs s (reg + portnum * 0x08)"

definition ch43x_port_read :: "uart_port \<Rightarrow> nat \<Rightarrow> ch43x_port \<Rightarrow> u8" where
  "ch43x_port_read p reg s = regs s (reg + line p * 0x08)"

definition ch43x_port_write_spefify ::
  "uart_port \<Rightarrow> nat \<Rightarrow> nat \<Rightarrow> u8 \<Rightarrow> ch43x_port \<Rightarrow> ch43x_port" where
  "ch43x_port_write_spefify p portnum reg val s =
     s\<lparr>regs := (regs s)(reg + portnum * 0x08 := val),
       trace := trace s @ [Spi_Write (ch43x_wr_cmd portnum reg) val]\<rparr>"

definition ch43x_port_write :: "uart_port \<Rightarrow> nat \<Rightarrow> u8 \<Rightarrow> ch43x_port \<Rightarrow> ch43x_port" where
  "ch43x_port_write p reg val s =
     s\<lparr>regs := (regs s)(reg + line p * 0x08 := val),
       trace := trace s @ [Spi_Write (ch43x_wr_cmd (line p) reg) val]\<rparr>"

text \<open>
  Read, modify, write. The temporary is an \<open>unsigned int\<close>; the write cuts it back
  to a byte.
\<close>

definition ch43x_port_update :: "uart_port \<Rightarrow> nat \<Rightarrow> u8 \<Rightarrow> u8 \<Rightarrow> ch43x_port \<Rightarrow> ch43x_port" where
  "ch43x_port_update p reg msk val s =
     (let tmp0 = (ucast (ch43x_port_read p reg s) :: u32);
          tmp1 = tmp0 AND NOT (ucast msk);
          tmp2 = tmp1 OR ucast (val AND msk)
      in ch43x_port_write p reg (ucast tmp2) s)"

definition ch43x_port_update_specify ::
  "uart_port \<Rightarrow> nat \<Rightarrow> nat \<Rightarrow> u8 \<Rightarrow> u8 \<Rightarrow> ch43x_port \<Rightarrow> ch43x_port" where
  "ch43x_port_update_specify p portnum reg msk val s =
     (let tmp0 = (ucast (ch43x_port_read_specify p portnum reg s) :: u32);
          tmp1 = tmp0 AND NOT (ucast msk);
          tmp2 = tmp1 OR ucast (val AND msk)
      in ch43x_port_write_spefify p portnum reg (ucast tmp2) s)"

text \<open>The burst write: one command byte, then \<open>len\<close> bytes of the buffer.\<close>

definition ch43x_raw_write ::
  "uart_port \<Rightarrow> u8 \<Rightarrow> (nat \<Rightarrow> u8) \<Rightarrow> nat \<Rightarrow> ch43x_port \<Rightarrow> ch43x_port" where
  "ch43x_raw_write p reg b len s = s\<lparr>trace := trace s @ [Spi_Burst reg (map b [0..<len])]\<rparr>"

text \<open>
  Power: whatever the channel, the sleep bit is the one of channel 0
  (\<open>ch43x_port_update_specify(port, 0, ...)\<close>).
\<close>

definition ch43x_power :: "uart_port \<Rightarrow> bool \<Rightarrow> ch43x_port \<Rightarrow> ch43x_port" where
  "ch43x_power p on s =
     ch43x_port_update_specify p 0 CH43X_IER_REG CH43X_IER_SLEEP_BIT
       (if on then 0 else CH43X_IER_SLEEP_BIT) s"

subsection \<open>Deferred stop-rx, startup and shutdown\<close>

definition ch43x_stop_rx_work_proc :: "ch43x_one \<Rightarrow> ch43x_port \<Rightarrow> ch43x_one \<times> ch43x_port" where
  "ch43x_stop_rx_work_proc one s =
     (let p = port one;
          p' = p\<lparr>read_status_mask := read_status_mask p AND NOT CH43X_LSR_DR_BIT\<rparr>;
          s1 = ch43x_port_update p' CH43X_IER_REG CH43X_IER_RDI_BIT 0 s;
          s2 = ch43x_port_update p' CH43X_IER_REG CH43X_IER_RLSI_BIT 0 s1
      in (one\<lparr>port := p'\<rparr>, s2))"

definition ch43x_startup :: "ch43x_one \<Rightarrow> ch43x_port \<Rightarrow> ch43x_one \<times> ch43x_port" where
  "ch43x_startup one s =
     (let p = port one;
          s1 = ch43x_power p True s;
          s2 = ch43x_port_write p CH43X_FCR_REG (CH43X_FCR_RXRESET_BIT OR CH43X_FCR_TXRESET_BIT) s1;
          s3 = s2\<lparr>trace := trace s2 @ [Udelay 5]\<rparr>;
          s4 = ch43x_port_write p CH43X_FCR_REG (CH43X_FCR_RXLVLH_BIT OR CH43X_FCR_FIFO_BIT) s3;
          s5 = ch43x_port_write p CH43X_LCR_REG CH43X_LCR_WORD_LEN_8 s4;
          val = (ucast (ch43x_port_read p CH43X_IER_REG s5) :: u32)
                  OR (CH43X_IER_RDI_BIT OR CH43X_IER_RLSI_BIT OR CH43X_IER_MSI_BIT);
          s6 = ch43x_port_write p CH43X_IER_REG (ucast val) s5;
          s7 = ch43x_port_write p CH43X_MCR_REG CH43X_MCR_OUT2 s6
      in (one\<lparr>mcr_force := CH43X_MCR_OUT2\<rparr>, s7))"

definition ch43x_shutdown :: "ch43x_one \<Rightarrow> ch43x_port \<Rightarrow> ch43x_one \<times> ch43x_port" where
  "ch43x_shutdown one s =
     (let p = port one;
          s1 = (if line p = 0 then ch43x_port_write p CH43X_IER_REG 0 s else s);
          s2 = ch43x_port_write p CH43X_MCR_REG 0 s1
      in (one\<lparr>mcr_force := 0\<rparr>, ch43x_power p False s2))"


subsection \<open>What the kernel headers supply\<close>

text \<open>
  The driver is compiled against the Linux serial core. Its constants and helpers are
  not part of the repository, so they are parameters: the termios flag bits in
  \<open>termbits\<close>, the rest in \<open>serial_core\<close>. \<open>uart_get_baud_rate\<close> gets the
  request and the two bounds the driver passes; \<open>uart_handle_break\<close> and
  \<open>uart_handle_sysrq_char\<close> answer whether the serial core consumed the event.
\<close>

record termbits =
  CSIZE :: u32
  CS5 :: u32
  CS6 :: u32
  CS7 :: u32
  CS8 :: u32
  CSTOPB :: u32
  CREAD :: u32
  PARENB :: u32
  PARODD :: u32
  CMSPAR :: u32
  CRTSCTS :: u32
  IGNBRK :: u32
  BRKINT :: u32
  PARMRK :: u32
  INPCK :: u32

record ktermios =
  c_iflag :: u32
  c_cflag :: u32

record serial_core =
  UART_XMIT_SIZE :: int
  WAKEUP_CHARS :: int
  SER_RS485_ENABLED :: u32
  uart_get_baud_rate :: "ktermios \<Rightarrow> u32 \<Rightarrow> u32 \<Rightarrow> u32"
  uart_handle_break :: "uart_port \<Rightarrow> bool"
  uart_handle_sysrq_char :: "uart_port \<Rightarrow> u32 \<Rightarrow> bool"

text \<open>
  Modelled from the spec: the macros \<open>uart_circ_empty\<close> and
  \<open>uart_circ_chars_pending\<close> of the serial core are not in the repository; the spec
  calls them the emptiness query and the pending-count query of the byte source. On
  the ring, whose tail the driver advances with \<open>(tail + 1) & (UART_XMIT_SIZE - 1)\<close>,
  the source is empty when \<open>head == tail\<close> and holds
  \<open>(head - tail) & (UART_XMIT_SIZE - 1)\<close> pending bytes.
\<close>

definition uart_circ_empty :: "circ_buf \<Rightarrow> bool" where
  "uart_circ_empty c = (head c = tail c)"

definition uart_circ_chars_pending :: "serial_core \<Rightarrow> circ_buf \<Rightarrow> int" where
  "uart_circ_chars_pending k c = (head c - tail c) AND (UART_XMIT_SIZE k - 1)"

subsection \<open>Baud rate\<close>

datatype fault = Divide_By_Zero

text \<open>
  Modelled from the spec: the kernel macro \<open>DIV_ROUND_CLOSEST\<close> is not in the
  repository; the spec calls it \<open>round_closest\<close>, the quotient rounded to the
  closest integer. For unsigned operands that is \<open>(x + d / 2) / d\<close>; a zero divisor
  is the division fault of the machine.
\<close>

definition DIV_ROUND_CLOSEST :: "nat \<Rightarrow> nat \<Rightarrow> fault + nat" where
  "DIV_ROUND_CLOSEST x d = (if d = 0 then Inl Divide_By_Zero else Inr ((x + d div 2) div d))"

text \<open>
  \<open>ch43x_set_baud\<close>. \<open>clk\<close> and \<open>div\<close> are \<open>unsigned long\<close> (64 bits), so the
  \<open>int baud\<close> is converted to it before dividing. Both divisions can fault; the second
  one comes after the four register writes. The two divisor writes cut their value to
  a byte, as the \<open>u8 val\<close> parameter of \<open>ch43x_port_write\<close> does.
\<close>

definition ch43x_set_baud :: "uart_port \<Rightarrow> int \<Rightarrow> ch43x_port \<Rightarrow> (fault + int) \<times> ch43x_port" where
  "ch43x_set_baud p baud s =
     (let clk = unat (uartclk p);
          b = nat (baud mod 2 ^ 64)
      in if b = 0 then (Inl Divide_By_Zero, s)
         else
           (let dv = clk div 16 div b;
                lcr = ch43x_port_read p CH43X_LCR_REG s;
                s1 = ch43x_port_write p CH43X_LCR_REG CH43X_LCR_CONF_MODE_A s;
                s2 = ch43x_port_write p CH43X_DLH_REG (of_nat (dv div 256)) s1;
                s3 = ch43x_port_write p CH43X_DLL_REG (of_nat (dv mod 256)) s2;
                s4 = ch43x_port_write p CH43X_LCR_REG lcr s3
            in (case DIV_ROUND_CLOSEST (clk div 16) dv of
                  Inl e \<Rightarrow> (Inl e, s4)
                | Inr r \<Rightarrow> (Inr (int r), s4))))"

text \<open>The bounds \<open>ch43x_set_termios\<close> passes to \<open>uart_get_baud_rate\<close>.\<close>

definition ch43x_min_baud :: "uart_port \<Rightarrow> u32" where
  "ch43x_min_baud p = uartclk p div 16 div 0xffff"

definition ch43x_max_baud :: "uart_port \<Rightarrow> u32" where
  "ch43x_max_baud p = uartclk p div 16 * 24"

text \<open>The divisor the chip holds after the two latch writes: high byte, low byte.\<close>

definition divisor_latch :: "u8 \<Rightarrow> u8 \<Rightarrow> nat" where
  "divisor_latch dlh dll = unat dlh * 256 + unat dll"

subsection \<open>Line configuration\<close>

text \<open>The word size switch: the line control bits and the request's flags after it.\<close>

definition termios_word_size :: "termbits \<Rightarrow> u32 \<Rightarrow> u32 \<times> u32" where
  "termios_word_size k cf =
     (let sz = cf AND CSIZE k
      in if sz = CS5 k then (CH43X_LCR_WORD_LEN_5, cf)
         else if sz = CS6 k then (CH43X_LCR_WORD_LEN_6, cf)
         else if sz = CS7 k then (CH43X_LCR_WORD_LEN_7, cf)
         else if sz = CS8 k then (CH43X_LCR_WORD_LEN_8, cf)
         else (CH43X_LCR_WORD_LEN_8, (cf AND NOT (CSIZE k)) OR CS8 k))"

definition bParityType :: "termbits \<Rightarrow> u32 \<Rightarrow> nat" where
  "bParityType k cf =
     (if cf AND PARENB k \<noteq> 0
      then (if cf AND PARODD k \<noteq> 0 then 1 else 2) + (if cf AND CMSPAR k \<noteq> 0 then 2 else 0)
      else 0)"

text \<open>The parity switch, entered with the parity enable bit already set.\<close>

definition termios_parity :: "nat \<Rightarrow> u32 \<Rightarrow> u32" where
  "termios_parity t lcr =
     (if t = 0x01 then lcr OR CH43X_LCR_ODDPARITY_BIT
      else if t = 0x02 then lcr OR CH43X_LCR_EVENPARITY_BIT
      else if t = 0x03 then lcr OR CH43X_LCR_MARKPARITY_BIT
      else if t = 0x04 then lcr OR CH43X_LCR_SPACEPARITY_BIT
      else lcr AND NOT CH43X_LCR_PARITY_BIT)"

definition termios_read_status_mask :: "termbits \<Rightarrow> u32 \<Rightarrow> u32" where
  "termios_read_status_mask k ifl =
     (let m0 = CH43X_LSR_OE_BIT;
          m1 = (if ifl AND INPCK k \<noteq> 0 then m0 OR (CH43X_LSR_PE_BIT OR CH43X_LSR_FE_BIT) else m0)
      in if ifl AND (BRKINT k OR PARMRK k) \<noteq> 0 then m1 OR CH43X_LSR_BI_BIT else m1)"

definition termios_ignore_status_mask :: "termbits \<Rightarrow> u32 \<Rightarrow> u32 \<Rightarrow> u32" where
  "termios_ignore_status_mask k ifl cf =
     (let m0 = (if ifl AND IGNBRK k \<noteq> 0 then CH43X_LSR_BI_BIT else 0)
      in if cf AND CREAD k = 0 then m0 OR CH43X_LSR_BRK_ERROR_MASK else m0)"

text \<open>The line control value \<open>ch43x_set_termios\<close> computes from the request's flags.\<close>

definition termios_lcr :: "termbits \<Rightarrow> u32 \<Rightarrow> u32" where
  "termios_lcr k cflag =
     (let cf0 = cflag AND NOT (CMSPAR k);
          lcr0 = fst (termios_word_size k cf0);
          cf1 = snd (termios_word_size k cf0);
          lcr1 = termios_parity (bParityType k cf1) (lcr0 OR CH43X_LCR_PARITY_BIT)
      in if cf1 AND CSTOPB k \<noteq> 0 then lcr1 OR CH43X_LCR_STOPLEN_BIT else lcr1)"

text \<open>
  \<open>ch43x_set_termios\<close>: the request is rewritten (the mark/space flag is cleared, an
  unknown word size becomes eight bits), the masks and the line control register are
  set, flow control is configured, and the baud rate the serial core picks is
  programmed. The function has no return value; the fault of \<open>ch43x_set_baud\<close> is
  the only way it does not complete.
\<close>

definition ch43x_set_termios ::
  "termbits \<Rightarrow> serial_core \<Rightarrow> ch43x_one \<Rightarrow> ktermios \<Rightarrow> ch43x_port
     \<Rightarrow> (fault + unit) \<times> ch43x_one \<times> ktermios \<times> ch43x_port" where
  "ch43x_set_termios k c one termios s =
     (let cf0 = c_cflag termios AND NOT (CMSPAR k);
          cf1 = snd (termios_word_size k cf0);
          termios1 = termios\<lparr>c_cflag := cf1\<rparr>;
          lcr = termios_lcr k (c_cflag termios);
          p1 = (port one)\<lparr>read_status_mask := termios_read_status_mask k (c_iflag termios1),
                          ignore_status_mask :=
                            termios_ignore_status_mask k (c_iflag termios1) cf1\<rparr>;
          s1 = ch43x_port_write p1 CH43X_LCR_REG (ucast lcr) s;
          s2 = (if cf1 AND CRTSCTS k \<noteq> 0
                then (let s' = ch43x_port_update p1 CH43X_MCR_REG
                                 (CH43X_MCR_AFE OR CH43X_MCR_RTS_BIT)
                                 (CH43X_MCR_AFE OR CH43X_MCR_RTS_BIT) s1
                      in s'\<lparr>trace := trace s' @ [Uart_Handle_Cts_Change True]\<rparr>)
                else ch43x_port_update p1 CH43X_MCR_REG CH43X_MCR_AFE 0 s1);
          force = (if cf1 AND CRTSCTS k \<noteq> 0
                   then mcr_force one OR (CH43X_MCR_AFE OR CH43X_MCR_RTS_BIT)
                   else mcr_force one AND NOT (CH43X_MCR_AFE OR CH43X_MCR_RTS_BIT));
          one1 = one\<lparr>port := p1, mcr_force := force\<rparr>;
          baud = sint (uart_get_baud_rate c termios1 (ch43x_min_baud p1) (ch43x_max_baud p1));
          r = ch43x_set_baud p1 baud s2
      in (case fst r of
            Inl e \<Rightarrow> (Inl e, one1, termios1, snd r)
          | Inr achieved \<Rightarrow>
              (Inr (), one1, termios1,
               (snd r)\<lparr>trace := trace (snd r) @ [Uart_Update_Timeout cf1 achieved]\<rparr>)))"

text \<open>
  A line configuration as the request names it, and its flag encoding: the one the
  tests of \<open>ch43x_set_termios\<close> read (odd is \<open>PARENB | PARODD\<close>, mark adds
  \<open>CMSPAR\<close> to odd, space adds it to even, two stop bits is \<open>CSTOPB\<close>).
\<close>

datatype word_len = Bits5 | Bits6 | Bits7 | Bits8
datatype parity_mode = Par_None | Par_Odd | Par_Even | Par_Mark | Par_Space
datatype stop_len = Stop1 | Stop2

definition cflag_word_len :: "termbits \<Rightarrow> word_len \<Rightarrow> u32" where
  "cflag_word_len k w = (case w of Bits5 \<Rightarrow> CS5 k | Bits6 \<Rightarrow> CS6 k | Bits7 \<Rightarrow> CS7 k | Bits8 \<Rightarrow> CS8 k)"

definition cflag_parity :: "termbits \<Rightarrow> parity_mode \<Rightarrow> u32" where
  "cflag_parity k q =
     (case q of
        Par_None \<Rightarrow> 0
      | Par_Odd \<Rightarrow> PARENB k OR PARODD k
      | Par_Even \<Rightarrow> PARENB k
      | Par_Mark \<Rightarrow> PARENB k OR PARODD k OR CMSPAR k
      | Par_Space \<Rightarrow> PARENB k OR CMSPAR k)"

definition cflag_stop :: "termbits \<Rightarrow> stop_len \<Rightarrow> u32" where
  "cflag_stop k t = (case t of Stop1 \<Rightarrow> 0 | Stop2 \<Rightarrow> CSTOPB k)"

definition cflag_of_config :: "termbits \<Rightarrow> word_len \<Rightarrow> parity_mode \<Rightarrow> stop_len \<Rightarrow> u32" where
  "cflag_of_config k w q t = cflag_word_len k w OR cflag_parity k q OR cflag_stop k t"

text \<open>
  Reading a line control byte back, by the tables of the register's bits: bits 1..0 the
  word length, bit 2 the stop length, bit 3 parity enable, bits 5..4 the kind of parity
  (\<open>00\<close> odd, \<open>01\<close> even, \<open>10\<close> mark, \<open>11\<close> space).
\<close>

definition lcr_word_len :: "u8 \<Rightarrow> word_len" where
  "lcr_word_len b =
     (if b AND 0x03 = CH43X_LCR_WORD_LEN_5 then Bits5
      else if b AND 0x03 = CH43X_LCR_WORD_LEN_6 then Bits6
      else if b AND 0x03 = CH43X_LCR_WORD_LEN_7 then Bits7
      else Bits8)"

definition lcr_parity :: "u8 \<Rightarrow> parity_mode" where
  "lcr_parity b =
     (if b AND CH43X_LCR_PARITY_BIT = 0 then Par_None
      else if b AND 0x30 = CH43X_LCR_ODDPARITY_BIT then Par_Odd
      else if b AND 0x30 = CH43X_LCR_EVENPARITY_BIT then Par_Even
      else if b AND 0x30 = CH43X_LCR_MARKPARITY_BIT then Par_Mark
      else Par_Space)"

definition lcr_stop :: "u8 \<Rightarrow> stop_len" where
  "lcr_stop b = (if b AND CH43X_LCR_STOPLEN_BIT = 0 then Stop1 else Stop2)"

definition lcr_decode :: "u8 \<Rightarrow> word_len \<times> parity_mode \<times> stop_len" where
  "lcr_decode b = (lcr_word_len b, lcr_parity b, lcr_stop b)"

text \<open>What the driver makes of a requested parity: the mark/space flag is masked off.\<close>

definition supported_parity :: "parity_mode \<Rightarrow> parity_mode" where
  "supported_parity q =
     (case q of Par_Mark \<Rightarrow> Par_Odd | Par_Space \<Rightarrow> Par_Even | Par_None \<Rightarrow> Par_None
      | Par_Odd \<Rightarrow> Par_Odd | Par_Even \<Rightarrow> Par_Even)"

text \<open>
  The flag bits are laid out soundly: every word size lies inside the size field and
  the four are distinct; the size field, the parity bits, the mark/space bit and the
  stop bit do not overlap, and the single bits are not zero.
\<close>

definition termbits_ok :: "termbits \<Rightarrow> bool" where
  "termbits_ok k =
     (CS5 k AND NOT (CSIZE k) = 0 \<and> CS6 k AND NOT (CSIZE k) = 0
      \<and> CS7 k AND NOT (CSIZE k) = 0 \<and> CS8 k AND NOT (CSIZE k) = 0
      \<and> distinct [CS5 k, CS6 k, CS7 k, CS8 k]
      \<and> PARENB k \<noteq> 0 \<and> PARODD k \<noteq> 0 \<and> CSTOPB k \<noteq> 0
      \<and> CSIZE k AND PARENB k = 0 \<and> CSIZE k AND PARODD k = 0
      \<and> CSIZE k AND CMSPAR k = 0 \<and> CSIZE k AND CSTOPB k = 0
      \<and> PARENB k AND PARODD k = 0 \<and> PARENB k AND CMSPAR k = 0
      \<and> PARENB k AND CSTOPB k = 0 \<and> PARODD k AND CMSPAR k = 0
      \<and> PARODD k AND CSTOPB k = 0 \<and> CMSPAR k AND CSTOPB k = 0)"

subsection \<open>Receive\<close>

text \<open>
  The flag derived from the masked status: break before parity before frame.
\<close>

definition rx_flag :: "u32 \<Rightarrow> tty_flag" where
  "rx_flag lsr =
     (if lsr AND CH43X_LSR_BI_BIT \<noteq> 0 then TTY_BREAK
      else if lsr AND CH43X_LSR_PE_BIT \<noteq> 0 then TTY_PARITY
      else if lsr AND CH43X_LSR_FE_BIT \<noteq> 0 then TTY_FRAME
      else TTY_NORMAL)"

text \<open>
  The end of the loop body: the sysrq hook may consume the byte; otherwise it goes to
  \<open>uart_insert_char(port, lsr, CH43X_LSR_OE_BIT, ch, flag)\<close>.
\<close>

definition rx_insert ::
  "serial_core \<Rightarrow> u32 \<Rightarrow> u32 \<Rightarrow> tty_flag \<Rightarrow> uart_port \<Rightarrow> ch43x_port \<Rightarrow> ch43x_port" where
  "rx_insert c lsr ch flag p s =
     (if uart_handle_sysrq_char c p ch then s
      else s\<lparr>trace := trace s @ [Uart_Insert_Char lsr CH43X_LSR_OE_BIT ch flag]\<rparr>)"

text \<open>
  The body of the receive loop for one byte, from the label \<open>ch_handler\<close> to the
  label \<open>ignore_char\<close>: \<open>lsr\<close> is the status read before the byte, \<open>ch\<close> the
  byte.
\<close>

definition ch43x_rx_char ::
  "serial_core \<Rightarrow> u32 \<Rightarrow> u32 \<Rightarrow> uart_port \<Rightarrow> ch43x_port \<Rightarrow> uart_port \<times> ch43x_port" where
  "ch43x_rx_char c lsr ch p s =
     (let p0 = p\<lparr>icount := (icount p)\<lparr>rx := rx (icount p) + 1\<rparr>\<rparr>
      in if lsr AND CH43X_LSR_BRK_ERROR_MASK \<noteq> 0
         then
           (if lsr AND CH43X_LSR_BI_BIT \<noteq> 0
            then
              (let lsr1 = lsr AND NOT (CH43X_LSR_FE_BIT OR CH43X_LSR_PE_BIT);
                   p1 = p0\<lparr>icount := (icount p0)\<lparr>brk := brk (icount p0) + 1\<rparr>\<rparr>
               in if uart_handle_break c p1 then (p1, s)
                  else
                    (let lsr2 = lsr1 AND read_status_mask p1
                     in (p1, rx_insert c lsr2 ch (rx_flag lsr2) p1 s)))
            else
              (let p1 =
                     (if lsr AND CH43X_LSR_PE_BIT \<noteq> 0
                      then p0\<lparr>icount := (icount p0)\<lparr>parity := parity (icount p0) + 1\<rparr>\<rparr>
                      else if lsr AND CH43X_LSR_FE_BIT \<noteq> 0
                      then p0\<lparr>icount := (icount p0)\<lparr>frame := frame (icount p0) + 1\<rparr>\<rparr>
                      else if lsr AND CH43X_LSR_OE_BIT \<noteq> 0
                      then p0\<lparr>icount := (icount p0)\<lparr>overrun := overrun (icount p0) + 1\<rparr>\<rparr>
                      else p0);
                   lsr2 = lsr AND read_status_mask p1
               in (p1, rx_insert c lsr2 ch (rx_flag lsr2) p1 s)))
         else (p0, rx_insert c lsr ch TTY_NORMAL p0 s))"

text \<open>
  The line status and receive registers are volatile: what the chip answers changes
  from one read to the next. The reads of \<open>ch43x_handle_rx\<close> therefore take their
  answers, in order, from a list; a run that needs more answers than the list holds
  has not returned (\<open>None\<close>).

  \<open>rx_spin\<close> is the busy wait for the data ready bit; it gives the status that ended
  the wait and the answers left.
\<close>

fun rx_spin :: "u8 list \<Rightarrow> (u32 \<times> u8 list) option" where
  "rx_spin [] = None"
| "rx_spin (a # ans) =
     (if (ucast a :: u32) AND CH43X_LSR_DR_BIT = 0 then rx_spin ans else Some (ucast a, ans))"

text \<open>
  The \<open>do ... while\<close> loop entered at \<open>ch_handler\<close> with a byte in hand: handle
  the byte, read the status, and go round again (reading the next byte) while data is
  ready.
\<close>

fun rx_loop ::
  "serial_core \<Rightarrow> u8 list \<Rightarrow> u32 \<Rightarrow> u32 \<Rightarrow> uart_port \<Rightarrow> ch43x_port
     \<Rightarrow> (uart_port \<times> ch43x_port) option" where
  "rx_loop c [] lsr ch p s = None"
| "rx_loop c [a] lsr ch p s =
     (let r = ch43x_rx_char c lsr ch p s
      in if (ucast a :: u32) AND CH43X_LSR_DR_BIT \<noteq> 0 then None else Some r)"
| "rx_loop c (a # b # ans) lsr ch p s =
     (let r = ch43x_rx_char c lsr ch p s
      in if (ucast a :: u32) AND CH43X_LSR_DR_BIT \<noteq> 0
         then rx_loop c ans (ucast a) (ucast b) (fst r) (snd r)
         else Some r)"

definition rx_finish :: "(uart_port \<times> ch43x_port) option \<Rightarrow> (uart_port \<times> ch43x_port) option" where
  "rx_finish r =
     (case r of
        None \<Rightarrow> None
      | Some (p, s) \<Rightarrow> Some (p, s\<lparr>trace := trace s @ [Tty_Flip_Buffer_Push]\<rparr>))"

definition rx_normal ::
  "serial_core \<Rightarrow> u8 list \<Rightarrow> uart_port \<Rightarrow> ch43x_port \<Rightarrow> (uart_port \<times> ch43x_port) option" where
  "rx_normal c ans p s =
     (case rx_spin ans of
        None \<Rightarrow> None
      | Some (lsr, []) \<Rightarrow> None
      | Some (lsr, b # rest) \<Rightarrow> rx_finish (rx_loop c rest lsr (ucast b) p s))"

definition ch43x_handle_rx ::
  "serial_core \<Rightarrow> u32 \<Rightarrow> u8 list \<Rightarrow> uart_port \<Rightarrow> ch43x_port
     \<Rightarrow> (uart_port \<times> ch43x_port) option" where
  "ch43x_handle_rx c iir ans p s =
     (if iir = CH43X_IIR_RLSE_SRC
      then
        (case ans of
           [] \<Rightarrow> None
         | a # ans1 \<Rightarrow>
             if (ucast a :: u32) AND CH43X_LSR_FIFOE_BIT \<noteq> 0
             then (case ans1 of
                     [] \<Rightarrow> None
                   | b # ans2 \<Rightarrow> rx_finish (rx_loop c ans2 (ucast a) (ucast b) p s))
             else rx_normal c ans1 p s)
      else rx_normal c ans p s)"

subsection \<open>Transmit\<close>

text \<open>
  The copy loop of \<open>ch43x_handle_tx\<close>: \<open>n\<close> bytes still to copy, \<open>i\<close> the index
  into the scratch array. The ring index is masked with \<open>UART_XMIT_SIZE - 1\<close>. The
  read \<open>xmit->buf[xmit->tail]\<close> is inside the ring as long as the tail is
  (\<open>0 \<le> tail < UART_XMIT_SIZE\<close>), which the mask keeps true; the theorems assume it
  of the tail they start from.
\<close>

fun tx_copy ::
  "serial_core \<Rightarrow> nat \<Rightarrow> nat \<Rightarrow> circ_buf \<Rightarrow> (nat \<Rightarrow> u8) \<Rightarrow> circ_buf \<times> (nat \<Rightarrow> u8)" where
  "tx_copy c 0 i x b = (x, b)"
| "tx_copy c (Suc n) i x b =
     tx_copy c n (Suc i)
       (x\<lparr>tail := (tail x + 1) AND (UART_XMIT_SIZE c - 1)\<rparr>)
       (b(i := buf x (nat (tail x))))"

definition ch43x_handle_tx :: "serial_core \<Rightarrow> uart_port \<Rightarrow> ch43x_port \<Rightarrow> uart_port \<times> ch43x_port" where
  "ch43x_handle_tx c p s =
     (if x_char p \<noteq> 0
      then (p\<lparr>x_char := 0, icount := (icount p)\<lparr>tx := tx (icount p) + 1\<rparr>\<rparr>,
            ch43x_port_write p CH43X_THR_REG (x_char p) s)
      else if uart_circ_empty (xmit p) \<or> tx_stopped p
      then (p, ch43x_port_update p CH43X_IER_REG CH43X_IER_THRI_BIT 0 s)
      else
        (let pending = uart_circ_chars_pending c (xmit p);
             r = (if pending \<noteq> 0
                  then
                    (let to_send = (if pending > CH43X_FIFO_SIZE then CH43X_FIFO_SIZE else pending);
                         cp = tx_copy c (nat to_send) 0 (xmit p) (s_buf s);
                         p1 = p\<lparr>icount := (icount p)\<lparr>tx := tx (icount p) + of_int to_send\<rparr>,
                                xmit := fst cp\<rparr>;
                         thr_reg = ch43x_wr_cmd (line p) CH43X_THR_REG
                     in (p1, ch43x_raw_write p thr_reg (snd cp) (nat to_send) (s\<lparr>s_buf := snd cp\<rparr>)))
                  else (p, s))
         in if uart_circ_chars_pending c (xmit (fst r)) < WAKEUP_CHARS c
            then (fst r, (snd r)\<lparr>trace := trace (snd r) @ [Uart_Write_Wakeup]\<rparr>)
            else r))"

text \<open>The payloads of the burst writes of a trace, in order.\<close>

fun bursts :: "event list \<Rightarrow> u8 list list" where
  "bursts [] = []"
| "bursts (Spi_Burst r xs # es) = xs # bursts es"
| "bursts (e # es) = bursts es"

text \<open>The bytes of the ring from the tail on: \<open>n\<close> of them, wrapping at \<open>sz\<close>.\<close>

definition ring_bytes :: "int \<Rightarrow> circ_buf \<Rightarrow> nat \<Rightarrow> u8 list" where
  "ring_bytes sz x n = map (\<lambda>i. buf x (nat ((tail x + int i) mod sz))) [0..<n]"

subsection \<open>Deferred start and stop of transmission\<close>

definition ch43x_wq_proc :: "ch43x_one \<Rightarrow> ch43x_port \<Rightarrow> ch43x_port" where
  "ch43x_wq_proc one s =
     ch43x_port_update (port one) CH43X_IER_REG CH43X_IER_THRI_BIT CH43X_IER_THRI_BIT s"

definition ch43x_stop_tx_work_proc :: "serial_core \<Rightarrow> ch43x_one \<Rightarrow> ch43x_port \<Rightarrow> ch43x_port" where
  "ch43x_stop_tx_work_proc c one s =
     (if flags (rs485 one) AND SER_RS485_ENABLED c \<noteq> 0
      then
        (let lsr = ch43x_port_read (port one) CH43X_LSR_REG s
         in if lsr AND CH43X_LSR_TEMT_BIT = 0 then s
            else
              (let s1 = (if uart_circ_empty (xmit (port one)) \<and> delay_rts_after_send (rs485 one) > 0
                         then s\<lparr>trace := trace s @ [Mdelay (delay_rts_after_send (rs485 one))]\<rparr>
                         else s)
               in ch43x_port_update (port one) CH43X_IER_REG CH43X_IER_THRI_BIT 0 s1))
      else ch43x_port_update (port one) CH43X_IER_REG CH43X_IER_THRI_BIT 0 s)"

subsection \<open>Concrete instances\<close>

text \<open>
  The values of a Linux kernel on a generic architecture
  (\<open>asm-generic/termbits.h\<close>, \<open>serial_core.h\<close>, \<open>serial.h\<close>), with a serial
  core that consumes no break and no sysrq character and asks for 9600 baud.
\<close>

definition linux_termbits :: termbits where
  "linux_termbits =
     \<lparr>CSIZE = 0x30, CS5 = 0x00, CS6 = 0x10, CS7 = 0x20, CS8 = 0x30, CSTOPB = 0x40,
      CREAD = 0x80, PARENB = 0x100, PARODD = 0x200, CMSPAR = 0x40000000,
      CRTSCTS = 0x80000000, IGNBRK = 0x01, BRKINT = 0x02, PARMRK = 0x08, INPCK = 0x10\<rparr>"

definition linux_core :: serial_core where
  "linux_core =
     \<lparr>UART_XMIT_SIZE = 4096, WAKEUP_CHARS = 256, SER_RS485_ENABLED = 0x01,
      uart_get_baud_rate = (\<lambda>t lo hi. 9600),
      uart_handle_break = (\<lambda>p. False),
      uart_handle_sysrq_char = (\<lambda>p ch. False)\<rparr>"

text \<open>
  A channel as \<open>ch43x_probe\<close> sets it up (the clock is twice the crystal), with an
  empty ring, and a chip whose registers are all zero.
\<close>

definition zero_icount :: uart_icount where
  "zero_icount = \<lparr>rx = 0, tx = 0, frame = 0, overrun = 0, parity = 0, brk = 0\<rparr>"

definition probe_port :: "nat \<Rightarrow> uart_port" where
  "probe_port i =
     \<lparr>line = i, uartclk = of_nat (CRYSTAL_FREQ * 2), read_status_mask = 0,
      ignore_status_mask = 0, x_char = 0, icount = zero_icount,
      xmit = \<lparr>buf = (\<lambda>a. 0), head = 0, tail = 0\<rparr>, tx_stopped = False\<rparr>"

definition probe_one :: "nat \<Rightarrow> ch43x_one" where
  "probe_one i =
     \<lparr>port = probe_port i,
      rs485 = \<lparr>flags = 0, delay_rts_before_send = 0, delay_rts_after_send = 0\<rparr>,
      msr_reg = 0, ier = 0, mcr_force = 0\<rparr>"

definition zero_chip :: ch43x_port where
  "zero_chip = \<lparr>regs = (\<lambda>a. 0), s_buf = (\<lambda>a. 0), trace = []\<rparr>"

section \<open>Facts\<close>

lemmas reg_defs =
  CH43X_RHR_REG_def CH43X_THR_REG_def CH43X_IER_REG_def CH43X_IIR_REG_def CH43X_FCR_REG_def
  CH43X_LCR_REG_def CH43X_MCR_REG_def CH43X_LSR_REG_def CH43X_MSR_REG_def CH43X_SPR_REG_def
  CH43X_DLL_REG_def CH43X_DLH_REG_def CH43X_REG_SHIFT_def

lemmas bit_defs =
  CH43X_IER_RDI_BIT_def CH43X_IER_THRI_BIT_def CH43X_IER_RLSI_BIT_def CH43X_IER_MSI_BIT_def
  CH43X_IER_RESET_BIT_def CH43X_IER_LOWPOWER_BIT_def CH43X_IER_SLEEP_BIT_def
  CH43X_IER_CK2X_BIT_def CH43X_FCR_FIFO_BIT_def CH43X_FCR_RXRESET_BIT_def
  CH43X_FCR_TXRESET_BIT_def CH43X_FCR_RXLVLH_BIT_def CH43X_IIR_RDI_SRC_def CH43X_IIR_RLSE_SRC_def
  CH43X_LCR_STOPLEN_BIT_def CH43X_LCR_PARITY_BIT_def CH43X_LCR_ODDPARITY_BIT_def
  CH43X_LCR_EVENPARITY_BIT_def CH43X_LCR_MARKPARITY_BIT_def CH43X_LCR_SPACEPARITY_BIT_def
  CH43X_LCR_DLAB_BIT_def CH43X_LCR_WORD_LEN_5_def CH43X_LCR_WORD_LEN_6_def
  CH43X_LCR_WORD_LEN_7_def CH43X_LCR_WORD_LEN_8_def CH43X_LCR_CONF_MODE_A_def
  CH43X_MCR_RTS_BIT_def CH43X_MCR_OUT2_def CH43X_MCR_AFE_def
  CH43X_LSR_DR_BIT_def CH43X_LSR_OE_BIT_def CH43X_LSR_PE_BIT_def CH43X_LSR_FE_BIT_def
  CH43X_LSR_BI_BIT_def CH43X_LSR_BRK_ERROR_MASK_def CH43X_LSR_THRE_BIT_def
  CH43X_LSR_TEMT_BIT_def CH43X_LSR_FIFOE_BIT_def

subsection \<open>Register access: facts\<close>

lemma update_byte:
  "(ucast (((ucast (r :: u8) :: u32) AND NOT (ucast (m :: u8))) OR ucast (v AND m)) :: u8)
     = (r AND NOT m) OR (v AND m)"
  by (rule bit_word_eqI) (auto simp add: bit_simps)

lemma ch43x_port_update_eq:
  "ch43x_port_update p reg m v s =
     ch43x_port_write p reg ((ch43x_port_read p reg s AND NOT m) OR (v AND m)) s"
  by (simp add: ch43x_port_update_def Let_def update_byte)

lemma ch43x_port_update_specify_eq:
  "ch43x_port_update_specify p n reg m v s =
     ch43x_port_write_spefify p n reg
       ((ch43x_port_read_specify p n reg s AND NOT m) OR (v AND m)) s"
  by (simp add: ch43x_port_update_specify_def Let_def update_byte)

text \<open>The command bytes that appear in the traces below.\<close>

lemma cmd_bytes:
  "ch43x_wr_cmd 0 CH43X_THR_REG = 0x02" "ch43x_wr_cmd 0 CH43X_IER_REG = 0x06"
  "ch43x_wr_cmd 0 CH43X_LCR_REG = 0x0E" "ch43x_wr_cmd 0 CH43X_MCR_REG = 0x12"
  "ch43x_wr_cmd 1 CH43X_THR_REG = 0x22" "ch43x_wr_cmd 1 CH43X_IER_REG = 0x26"
  "ch43x_wr_cmd 1 CH43X_LCR_REG = 0x2E" "ch43x_wr_cmd 1 CH43X_MCR_REG = 0x32"
  "ch43x_rd_cmd 0 CH43X_LSR_REG = 0x14" "ch43x_rd_cmd 1 CH43X_LSR_REG = 0x34"
  by (simp_all add: ch43x_wr_cmd_def ch43x_rd_cmd_def reg_defs)

subsection \<open>Deferred stop-rx\<close>

text \<open>
  C6, as the specification states it: the deferred stop-rx action clears the overrun bit
  of the read status mask. It does not: on a channel whose mask carries the overrun
  bit, the bit is still there afterwards.
\<close>

theorem stop_rx_keeps_overrun_bit:
  "read_status_mask (port (fst (ch43x_stop_rx_work_proc
      ((probe_one 0)\<lparr>port := (probe_port 0)\<lparr>read_status_mask := CH43X_LSR_OE_BIT\<rparr>\<rparr>)
      zero_chip))) AND CH43X_LSR_OE_BIT \<noteq> 0"
  by (simp add: ch43x_stop_rx_work_proc_def Let_def probe_one_def bit_defs)

text \<open>
  C6, amended: the deferred stop-rx action clears the data ready bit (bit 0) of the
  channel's read status mask, and clears the RX data and RX line status enable bits in
  the channel's interrupt enable register with two read-modify-write updates. Nothing
  else changes: the result is the old state with exactly these updates.
\<close>

theorem stop_rx_effect:
  "ch43x_stop_rx_work_proc one s =
     (one\<lparr>port := (port one)\<lparr>read_status_mask :=
                                 read_status_mask (port one) AND NOT CH43X_LSR_DR_BIT\<rparr>\<rparr>,
      s\<lparr>regs := (regs s)(CH43X_IER_REG + line (port one) * 8 :=
                 regs s (CH43X_IER_REG + line (port one) * 8)
                   AND NOT (CH43X_IER_RDI_BIT OR CH43X_IER_RLSI_BIT)),
        trace := trace s @
          [Spi_Write (ch43x_wr_cmd (line (port one)) CH43X_IER_REG)
             (regs s (CH43X_IER_REG + line (port one) * 8) AND NOT CH43X_IER_RDI_BIT),
           Spi_Write (ch43x_wr_cmd (line (port one)) CH43X_IER_REG)
             (regs s (CH43X_IER_REG + line (port one) * 8)
                AND NOT (CH43X_IER_RDI_BIT OR CH43X_IER_RLSI_BIT))]\<rparr>)"
  by (simp add: ch43x_stop_rx_work_proc_def Let_def ch43x_port_update_eq ch43x_port_write_def
      ch43x_port_read_def bit_defs and.assoc)

subsection \<open>Shutdown\<close>

lemma sleep_or: "((r :: u8) AND - 33) OR 32 = r OR 32"
  by (rule bit_word_eqI) (auto simp add: bit_simps)

text \<open>
  C9, as the specification states it: on shutdown every channel has zero written to its
  interrupt enable register. For channel 1 it has not: with receive interrupts enabled
  in channel 1's register (\<open>0x2D\<close>), shutting the channel down issues exactly two
  writes, one to its modem control register and one to the interrupt enable register
  of channel 0, and channel 1's register still holds \<open>0x2D\<close>.
\<close>

theorem shutdown_channel1_keeps_ier:
  "trace (snd (ch43x_shutdown (probe_one 1)
       (zero_chip\<lparr>regs := (\<lambda>a. 0)(CH43X_IER_REG + 1 * 8 := 0x2D)\<rparr>)))
     = [Spi_Write (ch43x_wr_cmd 1 CH43X_MCR_REG) 0, Spi_Write (ch43x_wr_cmd 0 CH43X_IER_REG) 0x20]
   \<and> regs (snd (ch43x_shutdown (probe_one 1)
       (zero_chip\<lparr>regs := (\<lambda>a. 0)(CH43X_IER_REG + 1 * 8 := 0x2D)\<rparr>)))
        (CH43X_IER_REG + 1 * 8) = 0x2D"
  by (simp add: ch43x_shutdown_def Let_def ch43x_power_def ch43x_port_update_specify_eq
      ch43x_port_write_def ch43x_port_write_spefify_def ch43x_port_read_specify_def
      reg_defs bit_defs probe_one_def probe_port_def zero_chip_def)

text \<open>
  C9, amended: shutting a channel down writes zero to the channel's modem control
  register, clears its forced modem control bits, and sets the sleep bit (bit 5) in the
  interrupt enable register of channel 0, whichever channel is shut down. Zero is
  written to the interrupt enable register first only when the channel is channel 0,
  which leaves that register holding the sleep bit alone; the interrupt enable
  register of any other channel is not written.
\<close>

theorem shutdown_effect:
  "ch43x_shutdown one s =
     (one\<lparr>mcr_force := 0\<rparr>,
      if line (port one) = 0
      then s\<lparr>regs := (regs s)(CH43X_MCR_REG := 0, CH43X_IER_REG := CH43X_IER_SLEEP_BIT),
             trace := trace s @
               [Spi_Write (ch43x_wr_cmd 0 CH43X_IER_REG) 0,
                Spi_Write (ch43x_wr_cmd 0 CH43X_MCR_REG) 0,
                Spi_Write (ch43x_wr_cmd 0 CH43X_IER_REG) CH43X_IER_SLEEP_BIT]\<rparr>
      else s\<lparr>regs := (regs s)(CH43X_MCR_REG + line (port one) * 8 := 0,
                              CH43X_IER_REG := regs s CH43X_IER_REG OR CH43X_IER_SLEEP_BIT),
             trace := trace s @
               [Spi_Write (ch43x_wr_cmd (line (port one)) CH43X_MCR_REG) 0,
                Spi_Write (ch43x_wr_cmd 0 CH43X_IER_REG)
                  (regs s CH43X_IER_REG OR CH43X_IER_SLEEP_BIT)]\<rparr>)"
  by (auto simp add: ch43x_shutdown_def Let_def ch43x_power_def ch43x_port_update_specify_eq
      ch43x_port_write_def ch43x_port_write_spefify_def ch43x_port_read_specify_def
      reg_defs bit_defs sleep_or fun_eq_iff)

text \<open>
  The same on a channel that was started: after \<open>ch43x_startup\<close> and
  \<open>ch43x_shutdown\<close> of channel 1 its interrupt enable register still has the
  receive, line status and modem status interrupts enabled.
\<close>

lemma shutdown_after_startup_channel1:
  "regs (snd (ch43x_shutdown (fst (ch43x_startup (probe_one 1) zero_chip))
                (snd (ch43x_startup (probe_one 1) zero_chip))))
     (CH43X_IER_REG + 1 * 8) = CH43X_IER_RDI_BIT OR CH43X_IER_RLSI_BIT OR CH43X_IER_MSI_BIT"
  by (simp add: ch43x_shutdown_def ch43x_startup_def Let_def ch43x_power_def
      ch43x_port_update_specify_eq ch43x_port_write_def ch43x_port_write_spefify_def
      ch43x_port_read_def ch43x_port_read_specify_def reg_defs bit_defs probe_one_def
      probe_port_def zero_chip_def)

subsection \<open>Deferred stop-tx under RS485\<close>

text \<open>
  C4: with RS485 enabled, the deferred stop-tx body returns the state it was given when
  the line status register shows the transmitter not empty: no register is written, no
  delay is taken. When the transmitter is empty, the ring is empty and a post-send
  delay is configured, the body delays once by that time and then clears the TX-ready
  enable bit of the channel's interrupt enable register, and does nothing else.
\<close>

theorem stop_tx_rs485_gate:
  assumes "flags (rs485 one) AND SER_RS485_ENABLED c \<noteq> 0"
  shows "(ch43x_port_read (port one) CH43X_LSR_REG s AND CH43X_LSR_TEMT_BIT = 0
            \<longrightarrow> ch43x_stop_tx_work_proc c one s = s)
       \<and> (ch43x_port_read (port one) CH43X_LSR_REG s AND CH43X_LSR_TEMT_BIT \<noteq> 0
            \<and> uart_circ_empty (xmit (port one)) \<and> 0 < delay_rts_after_send (rs485 one)
            \<longrightarrow> ch43x_stop_tx_work_proc c one s =
                 s\<lparr>regs := (regs s)(CH43X_IER_REG + line (port one) * 8 :=
                            regs s (CH43X_IER_REG + line (port one) * 8) AND NOT CH43X_IER_THRI_BIT),
                   trace := trace s @
                     [Mdelay (delay_rts_after_send (rs485 one)),
                      Spi_Write (ch43x_wr_cmd (line (port one)) CH43X_IER_REG)
                        (regs s (CH43X_IER_REG + line (port one) * 8) AND NOT CH43X_IER_THRI_BIT)]\<rparr>)"
  using assms
  by (simp add: ch43x_stop_tx_work_proc_def Let_def ch43x_port_update_eq ch43x_port_write_def
      ch43x_port_read_def)

theorem stop_tx_rs485_gate_witness:
  "ch43x_stop_tx_work_proc linux_core
      ((probe_one 0)\<lparr>rs485 := \<lparr>flags = 1, delay_rts_before_send = 0, delay_rts_after_send = 5\<rparr>\<rparr>)
      zero_chip = zero_chip
   \<and> ch43x_stop_tx_work_proc linux_core
      ((probe_one 0)\<lparr>rs485 := \<lparr>flags = 1, delay_rts_before_send = 0, delay_rts_after_send = 5\<rparr>\<rparr>)
      (zero_chip\<lparr>regs := (\<lambda>a. 0)(CH43X_LSR_REG := 0x60, CH43X_IER_REG := 0x0F)\<rparr>)
     = zero_chip\<lparr>regs := (\<lambda>a. 0)(CH43X_LSR_REG := 0x60, CH43X_IER_REG := 0x0D),
                 trace := [Mdelay 5, Spi_Write (ch43x_wr_cmd 0 CH43X_IER_REG) 0x0D]\<rparr>"
  using
    stop_tx_rs485_gate [of "(probe_one 0)\<lparr>rs485 := \<lparr>flags = 1, delay_rts_before_send = 0, delay_rts_after_send = 5\<rparr>\<rparr>"
      linux_core zero_chip]
    stop_tx_rs485_gate [of "(probe_one 0)\<lparr>rs485 := \<lparr>flags = 1, delay_rts_before_send = 0, delay_rts_after_send = 5\<rparr>\<rparr>"
      linux_core "zero_chip\<lparr>regs := (\<lambda>a. 0)(CH43X_LSR_REG := 0x60, CH43X_IER_REG := 0x0F)\<rparr>"]
  by (simp add: probe_one_def probe_port_def linux_core_def zero_chip_def ch43x_port_read_def
      uart_circ_empty_def reg_defs bit_defs fun_eq_iff)

subsection \<open>Baud rate\<close>

lemma line_probe [simp]: "line (probe_port i) = i"
  by (simp add: probe_port_def)

lemma clk_probe: "unat (uartclk (probe_port i)) = 44236800"
  by (simp add: probe_port_def CRYSTAL_FREQ_def)

text \<open>With the clock of \<open>ch43x_probe\<close> the supported range is 42 to 66355200 baud.\<close>

lemma baud_bounds_probe:
  "ch43x_min_baud (probe_port i) = 42 \<and> ch43x_max_baud (probe_port i) = 66355200"
  by (simp add: ch43x_min_baud_def ch43x_max_baud_def probe_port_def CRYSTAL_FREQ_def
      word_div_def)

text \<open>
  C1 at two bauds of the supported range, clock 44236800. At 3000000 baud the divisor
  \<open>floor(clock/16/b)\<close> is zero: both latch bytes are written as zero and the rounding
  division then divides by zero, so no achieved baud is returned. At 42 baud, the lower
  bound, the divisor is 65828 and does not fit the two latch bytes: the high byte is
  written as 1 (257 cut to a byte), the latch holds 292, and 42 is returned as achieved.
\<close>

theorem set_baud_fails_in_supported_range:
  "ch43x_min_baud (probe_port 0) \<le> 42 \<and> 3000000 \<le> ch43x_max_baud (probe_port 0)
   \<and> ch43x_set_baud (probe_port 0) 3000000 zero_chip =
      (Inl Divide_By_Zero,
       zero_chip\<lparr>regs := (\<lambda>a. 0)(CH43X_LCR_REG := 0, CH43X_DLH_REG := 0, CH43X_DLL_REG := 0),
         trace := [Spi_Write (ch43x_wr_cmd 0 CH43X_LCR_REG) 0x80,
                   Spi_Write (ch43x_wr_cmd 0 CH43X_DLH_REG) 0,
                   Spi_Write (ch43x_wr_cmd 0 CH43X_DLL_REG) 0,
                   Spi_Write (ch43x_wr_cmd 0 CH43X_LCR_REG) 0]\<rparr>)
   \<and> ch43x_set_baud (probe_port 0) 42 zero_chip =
      (Inr 42,
       zero_chip\<lparr>regs := (\<lambda>a. 0)(CH43X_LCR_REG := 0, CH43X_DLH_REG := 1, CH43X_DLL_REG := 36),
         trace := [Spi_Write (ch43x_wr_cmd 0 CH43X_LCR_REG) 0x80,
                   Spi_Write (ch43x_wr_cmd 0 CH43X_DLH_REG) 1,
                   Spi_Write (ch43x_wr_cmd 0 CH43X_DLL_REG) 36,
                   Spi_Write (ch43x_wr_cmd 0 CH43X_LCR_REG) 0]\<rparr>)
   \<and> divisor_latch 1 36 = 292
   \<and> unat (uartclk (probe_port 0)) div 16 div 42 = 65828"
  by (simp add: baud_bounds_probe ch43x_set_baud_def Let_def DIV_ROUND_CLOSEST_def
      ch43x_port_write_def ch43x_port_read_def clk_probe zero_chip_def reg_defs bit_defs fun_eq_iff
      divisor_latch_def)

text \<open>
  The fault is reached through \<open>ch43x_set_termios\<close>: a serial core that picks
  3000000 baud, which lies between the bounds it is given, makes the configuration
  call end in the division by zero.
\<close>

lemma set_termios_3000000_faults:
  "fst (ch43x_set_termios linux_termbits
          (linux_core\<lparr>uart_get_baud_rate := (\<lambda>t lo hi. if lo \<le> 3000000 \<and> 3000000 \<le> hi then 3000000 else 9600)\<rparr>)
          (probe_one 0) \<lparr>c_iflag = 0, c_cflag = 0xB0\<rparr> zero_chip) = Inl Divide_By_Zero"
proof -
  have p: "uartclk (port (probe_one 0)) = 44236800"
    by (simp add: probe_one_def probe_port_def CRYSTAL_FREQ_def)
  show ?thesis
    by (simp add: ch43x_set_termios_def Let_def ch43x_min_baud_def ch43x_max_baud_def p
        word_div_def linux_core_def ch43x_set_baud_def DIV_ROUND_CLOSEST_def split: sum.split)
qed

text \<open>
  The instance the specification names: clock 44236800 and 9600 baud give the divisor 288
  (high byte 1, low byte 32, written under divisor access and in that order) and the
  achieved baud 9600.
\<close>

lemma set_baud_9600:
  "ch43x_set_baud (probe_port 0) 9600 zero_chip =
      (Inr 9600,
       zero_chip\<lparr>regs := (\<lambda>a. 0)(CH43X_LCR_REG := 0, CH43X_DLH_REG := 1, CH43X_DLL_REG := 32),
         trace := [Spi_Write (ch43x_wr_cmd 0 CH43X_LCR_REG) 0x80,
                   Spi_Write (ch43x_wr_cmd 0 CH43X_DLH_REG) 1,
                   Spi_Write (ch43x_wr_cmd 0 CH43X_DLL_REG) 32,
                   Spi_Write (ch43x_wr_cmd 0 CH43X_LCR_REG) 0]\<rparr>)
   \<and> divisor_latch 1 32 = 288"
  by (simp add: ch43x_set_baud_def Let_def DIV_ROUND_CLOSEST_def
      ch43x_port_write_def ch43x_port_read_def clk_probe zero_chip_def reg_defs bit_defs fun_eq_iff
      divisor_latch_def)

text \<open>
  Where the divisor is between 1 and 65535 the latch holds \<open>floor(clock/16/b)\<close>,
  written high byte first under divisor access, and the achieved baud is the rounded
  quotient.
\<close>

lemma divisor_latch_split:
  assumes "d \<le> 65535"
  shows "divisor_latch (of_nat (d div 256)) (of_nat (d mod 256)) = d"
proof -
  have hi: "d div 256 < 256" using assms by simp
  have "unat (of_nat (d div 256) :: u8) = d div 256"
    using hi by (simp add: unat_of_nat)
  moreover have "unat (of_nat (d mod 256) :: u8) = d mod 256"
    by (simp add: unat_of_nat)
  ultimately show ?thesis by (simp add: divisor_latch_def)
qed

lemma set_baud_in_divisor_range:
  assumes b: "0 < b" "b < 2 ^ 31"
    and lo: "1 \<le> unat (uartclk p) div 16 div b"
    and hi: "unat (uartclk p) div 16 div b \<le> 65535"
  shows "ch43x_set_baud p (int b) s =
     (Inr (int ((unat (uartclk p) div 16 + unat (uartclk p) div 16 div b div 2)
                  div (unat (uartclk p) div 16 div b))),
      s\<lparr>regs := (regs s)
           (CH43X_LCR_REG + line p * 8 := CH43X_LCR_CONF_MODE_A,
            CH43X_DLH_REG + line p * 8 := of_nat (unat (uartclk p) div 16 div b div 256),
            CH43X_DLL_REG + line p * 8 := of_nat (unat (uartclk p) div 16 div b mod 256),
            CH43X_LCR_REG + line p * 8 := regs s (CH43X_LCR_REG + line p * 8)),
        trace := trace s @
          [Spi_Write (ch43x_wr_cmd (line p) CH43X_LCR_REG) CH43X_LCR_CONF_MODE_A,
           Spi_Write (ch43x_wr_cmd (line p) CH43X_DLH_REG) (of_nat (unat (uartclk p) div 16 div b div 256)),
           Spi_Write (ch43x_wr_cmd (line p) CH43X_DLL_REG) (of_nat (unat (uartclk p) div 16 div b mod 256)),
           Spi_Write (ch43x_wr_cmd (line p) CH43X_LCR_REG) (regs s (CH43X_LCR_REG + line p * 8))]\<rparr>)
   \<and> divisor_latch (of_nat (unat (uartclk p) div 16 div b div 256))
        (of_nat (unat (uartclk p) div 16 div b mod 256)) = unat (uartclk p) div 16 div b"
proof -
  have "b < 18446744073709551616"
    using b(2) by simp
  then have nb: "nat (int b mod 18446744073709551616) = b"
    by (simp add: nat_mod_distrib)
  have dv: "unat (uartclk p) div 16 div b \<noteq> 0" using lo by simp
  show ?thesis
    using dv b(1)
    by (simp add: ch43x_set_baud_def Let_def nb DIV_ROUND_CLOSEST_def ch43x_port_write_def
        ch43x_port_read_def divisor_latch_split [OF hi])
qed

subsection \<open>Transmit drain\<close>

lemma and_size_mask: "(x :: int) AND (2 ^ k - 1) = x mod 2 ^ k"
  by (simp add: take_bit_eq_mod flip: take_bit_eq_mask mask_eq_exp_minus_1)

lemma tx_copy_frame:
  "buf (fst (tx_copy c n i x b)) = buf x \<and> head (fst (tx_copy c n i x b)) = head x"
  by (induction n arbitrary: i x b) simp_all

lemma tx_copy_tail:
  assumes "UART_XMIT_SIZE c = 2 ^ k" "0 \<le> tail x" "tail x < 2 ^ k"
  shows "tail (fst (tx_copy c n i x b)) = (tail x + int n) mod 2 ^ k"
  using assms(2,3)
proof (induction n arbitrary: i x b)
  case 0
  then show ?case by simp
next
  case (Suc n)
  let ?x = "x\<lparr>tail := (tail x + 1) AND (UART_XMIT_SIZE c - 1)\<rparr>"
  have t: "tail ?x = (tail x + 1) mod 2 ^ k"
    by (simp add: assms(1) and_size_mask)
  have "tail (fst (tx_copy c n (Suc i) ?x (b(i := buf x (nat (tail x)))))) = (tail ?x + int n) mod 2 ^ k"
    by (rule Suc.IH) (simp_all add: t)
  also have "\<dots> = (tail x + int (Suc n)) mod 2 ^ k"
    by (simp add: t mod_simps add.assoc)
  finally show ?case by simp
qed

lemma tx_copy_scratch:
  assumes "UART_XMIT_SIZE c = 2 ^ k" "0 \<le> tail x" "tail x < 2 ^ k"
  shows "snd (tx_copy c n i x b) j =
           (if i \<le> j \<and> j < i + n then buf x (nat ((tail x + int (j - i)) mod 2 ^ k)) else b j)"
  using assms(2,3)
proof (induction n arbitrary: i x b)
  case 0
  then show ?case by auto
next
  case (Suc n)
  let ?x = "x\<lparr>tail := (tail x + 1) AND (UART_XMIT_SIZE c - 1)\<rparr>"
  let ?b = "b(i := buf x (nat (tail x)))"
  have t: "tail ?x = (tail x + 1) mod 2 ^ k"
    by (simp add: assms(1) and_size_mask)
  have IH: "snd (tx_copy c n (Suc i) ?x ?b) j =
      (if Suc i \<le> j \<and> j < Suc i + n then buf ?x (nat ((tail ?x + int (j - Suc i)) mod 2 ^ k)) else ?b j)"
    by (rule Suc.IH) (simp_all add: t)
  show ?case
  proof (cases "j = i")
    case True
    then show ?thesis using IH Suc.prems by simp
  next
    case False
    show ?thesis
    proof (cases "Suc i \<le> j \<and> j < Suc i + n")
      case True
      then have "1 + int (j - Suc i) = int (j - i)" by simp
      then have "(tail ?x + int (j - Suc i)) mod 2 ^ k = (tail x + int (j - i)) mod 2 ^ k"
        by (simp add: t mod_simps add.assoc)
      then show ?thesis using IH True by simp
    next
      case False
      then show ?thesis using IH \<open>j \<noteq> i\<close> by auto
    qed
  qed
qed

lemma tx_copy_payload:
  assumes "UART_XMIT_SIZE c = 2 ^ k" "0 \<le> tail x" "tail x < 2 ^ k"
  shows "map (snd (tx_copy c n 0 x b)) [0..<n] = ring_bytes (2 ^ k) x n"
  by (simp add: ring_bytes_def tx_copy_scratch [OF assms])

lemma bursts_append: "bursts (es @ fs) = bursts es @ bursts fs"
  by (induction es rule: bursts.induct) simp_all

lemma length_ring_bytes: "length (ring_bytes sz x n) = n"
  by (simp add: ring_bytes_def)

lemma pending_eq:
  assumes sz: "UART_XMIT_SIZE c = 2 ^ k"
    and h: "head x = (tail x + m) mod 2 ^ k"
    and m: "0 \<le> m" "m < 2 ^ k"
  shows "uart_circ_chars_pending c x = m"
proof -
  have "uart_circ_chars_pending c x = (head x - tail x) mod 2 ^ k"
    by (simp add: uart_circ_chars_pending_def sz and_size_mask)
  also have "\<dots> = m mod 2 ^ k"
    by (simp add: h mod_simps)
  also have "\<dots> = m" using m by simp
  finally show ?thesis .
qed

lemma handle_tx_chunk:
  assumes sz: "UART_XMIT_SIZE c = 2 ^ k"
    and t: "0 \<le> tail (xmit p)" "tail (xmit p) < 2 ^ k"
    and h: "head (xmit p) = (tail (xmit p) + m) mod 2 ^ k"
    and m: "0 < m" "m < 2 ^ k"
    and x: "x_char p = 0" "\<not> tx_stopped p"
  shows "fst (ch43x_handle_tx c p s) =
           p\<lparr>icount := (icount p)\<lparr>tx := tx (icount p) + of_int (min 16 m)\<rparr>,
             xmit := (xmit p)\<lparr>tail := (tail (xmit p) + min 16 m) mod 2 ^ k\<rparr>\<rparr>
       \<and> bursts (trace (snd (ch43x_handle_tx c p s))) =
           bursts (trace s) @ [ring_bytes (2 ^ k) (xmit p) (nat (min 16 m))]"
proof -
  have pend: "uart_circ_chars_pending c (xmit p) = m"
    using pending_eq [OF sz h] m by simp
  have ne: "\<not> uart_circ_empty (xmit p)"
  proof
    assume "uart_circ_empty (xmit p)"
    then have "uart_circ_chars_pending c (xmit p) = 0"
      by (simp add: uart_circ_empty_def uart_circ_chars_pending_def)
    with pend m show False by simp
  qed
  let ?n = "min 16 m"
  have n: "(if m > CH43X_FIFO_SIZE then CH43X_FIFO_SIZE else m) = ?n"
    by (simp add: CH43X_FIFO_SIZE_def min_def)
  let ?cp = "tx_copy c (nat ?n) 0 (xmit p) (s_buf s)"
  have n0: "0 \<le> ?n" using m by simp
  have x': "fst ?cp = (xmit p)\<lparr>tail := (tail (xmit p) + ?n) mod 2 ^ k\<rparr>"
    using tx_copy_frame [of c "nat ?n" 0 "xmit p" "s_buf s"]
      tx_copy_tail [OF sz t, of "nat ?n" 0 "s_buf s"] n0
    by (intro circ_buf.equality) simp_all
  have pay: "map (snd ?cp) [0..<nat ?n] = ring_bytes (2 ^ k) (xmit p) (nat ?n)"
    by (rule tx_copy_payload [OF sz t])
  show ?thesis
    using x ne pend m
    by (simp add: ch43x_handle_tx_def Let_def n x' pay ch43x_raw_write_def bursts_append)
qed

text \<open>
  C2: a ring of size \<open>2 ^ k\<close> holds 40 pending bytes, no \<open>x_char\<close> is pending and
  transmission is not stopped. Three successive calls of \<open>ch43x_handle_tx\<close> each emit
  one burst write: the 16 bytes at the tail, the next 16 and the last 8, so the bursts
  of the trace grow by payloads of 16, 16 and 8 bytes in that order. Each call moves the
  tail forward by the size of its chunk (modulo the ring size), and the ring is empty
  after the third.
\<close>

theorem tx_drain_40_bytes:
  assumes sz: "UART_XMIT_SIZE c = 2 ^ k" and big: "(40 :: int) < 2 ^ k"
    and t: "0 \<le> tail (xmit p)" "tail (xmit p) < 2 ^ k"
    and h: "head (xmit p) = (tail (xmit p) + 40) mod 2 ^ k"
    and x: "x_char p = 0" "\<not> tx_stopped p"
  shows "let r1 = ch43x_handle_tx c p s;
             r2 = ch43x_handle_tx c (fst r1) (snd r1);
             r3 = ch43x_handle_tx c (fst r2) (snd r2)
         in bursts (trace (snd r1)) = bursts (trace s) @ [ring_bytes (2 ^ k) (xmit p) 16]
          \<and> bursts (trace (snd r2)) =
              bursts (trace (snd r1)) @ [ring_bytes (2 ^ k) (xmit (fst r1)) 16]
          \<and> bursts (trace (snd r3)) =
              bursts (trace (snd r2)) @ [ring_bytes (2 ^ k) (xmit (fst r2)) 8]
          \<and> map length (bursts (trace (snd r3))) = map length (bursts (trace s)) @ [16, 16, 8]
          \<and> tail (xmit (fst r1)) = (tail (xmit p) + 16) mod 2 ^ k
          \<and> tail (xmit (fst r2)) = (tail (xmit (fst r1)) + 16) mod 2 ^ k
          \<and> tail (xmit (fst r3)) = (tail (xmit (fst r2)) + 8) mod 2 ^ k
          \<and> uart_circ_empty (xmit (fst r3))"
proof -
  define r1 where "r1 = ch43x_handle_tx c p s"
  define r2 where "r2 = ch43x_handle_tx c (fst r1) (snd r1)"
  define r3 where "r3 = ch43x_handle_tx c (fst r2) (snd r2)"
  have c1: "fst r1 = p\<lparr>icount := (icount p)\<lparr>tx := tx (icount p) + of_int (min 16 40)\<rparr>,
                      xmit := (xmit p)\<lparr>tail := (tail (xmit p) + min 16 40) mod 2 ^ k\<rparr>\<rparr>
      \<and> bursts (trace (snd r1)) = bursts (trace s) @ [ring_bytes (2 ^ k) (xmit p) (nat (min 16 40))]"
    unfolding r1_def by (rule handle_tx_chunk [OF sz t h _ big x]) simp
  have p1: "x_char (fst r1) = 0" "\<not> tx_stopped (fst r1)"
    "0 \<le> tail (xmit (fst r1))" "tail (xmit (fst r1)) < 2 ^ k"
    "tail (xmit (fst r1)) = (tail (xmit p) + 16) mod 2 ^ k"
    using c1 x by simp_all
  have h1: "head (xmit (fst r1)) = (tail (xmit (fst r1)) + 24) mod 2 ^ k"
    using c1 h by (simp add: mod_simps add.commute)
  have big1: "(24 :: int) < 2 ^ k" using big by simp
  have c2: "fst r2 = (fst r1)\<lparr>icount := (icount (fst r1))\<lparr>tx := tx (icount (fst r1)) + of_int (min 16 24)\<rparr>,
                      xmit := (xmit (fst r1))\<lparr>tail := (tail (xmit (fst r1)) + min 16 24) mod 2 ^ k\<rparr>\<rparr>
      \<and> bursts (trace (snd r2)) =
          bursts (trace (snd r1)) @ [ring_bytes (2 ^ k) (xmit (fst r1)) (nat (min 16 24))]"
    unfolding r2_def by (rule handle_tx_chunk [OF sz p1(3,4) h1 _ big1 p1(1,2)]) simp
  have p2: "x_char (fst r2) = 0" "\<not> tx_stopped (fst r2)"
    "0 \<le> tail (xmit (fst r2))" "tail (xmit (fst r2)) < 2 ^ k"
    "tail (xmit (fst r2)) = (tail (xmit (fst r1)) + 16) mod 2 ^ k"
    using c2 p1(1,2) by simp_all
  have h2: "head (xmit (fst r2)) = (tail (xmit (fst r2)) + 8) mod 2 ^ k"
    using c2 h1 by (simp add: mod_simps add.commute)
  have big2: "(8 :: int) < 2 ^ k" using big by simp
  have c3: "fst r3 = (fst r2)\<lparr>icount := (icount (fst r2))\<lparr>tx := tx (icount (fst r2)) + of_int (min 16 8)\<rparr>,
                      xmit := (xmit (fst r2))\<lparr>tail := (tail (xmit (fst r2)) + min 16 8) mod 2 ^ k\<rparr>\<rparr>
      \<and> bursts (trace (snd r3)) =
          bursts (trace (snd r2)) @ [ring_bytes (2 ^ k) (xmit (fst r2)) (nat (min 16 8))]"
    unfolding r3_def by (rule handle_tx_chunk [OF sz p2(3,4) h2 _ big2 p2(1,2)]) simp
  have t3: "tail (xmit (fst r3)) = (tail (xmit (fst r2)) + 8) mod 2 ^ k"
    using c3 by simp
  have e3: "uart_circ_empty (xmit (fst r3))"
    using c3 h2 by (simp add: uart_circ_empty_def)
  have b1: "bursts (trace (snd r1)) = bursts (trace s) @ [ring_bytes (2 ^ k) (xmit p) 16]"
    using c1 by simp
  have b2: "bursts (trace (snd r2)) = bursts (trace (snd r1)) @ [ring_bytes (2 ^ k) (xmit (fst r1)) 16]"
    using c2 by simp
  have b3: "bursts (trace (snd r3)) = bursts (trace (snd r2)) @ [ring_bytes (2 ^ k) (xmit (fst r2)) 8]"
    using c3 by simp
  have len: "map length (bursts (trace (snd r3))) = map length (bursts (trace s)) @ [16, 16, 8]"
    by (simp add: b1 b2 b3 length_ring_bytes)
  show ?thesis
    unfolding Let_def r1_def [symmetric] r2_def [symmetric] r3_def [symmetric]
    using b1 b2 b3 len p1(5) p2(5) t3 e3 by blast
qed

theorem tx_drain_40_bytes_witness:
  "let p = (probe_port 0)\<lparr>xmit := \<lparr>buf = (\<lambda>a. of_nat a), head = 34, tail = 4090\<rparr>\<rparr>;
       r1 = ch43x_handle_tx linux_core p zero_chip;
       r2 = ch43x_handle_tx linux_core (fst r1) (snd r1);
       r3 = ch43x_handle_tx linux_core (fst r2) (snd r2)
   in map length (bursts (trace (snd r3))) = [16, 16, 8]
      \<and> tail (xmit (fst r1)) = 10 \<and> tail (xmit (fst r2)) = 26 \<and> tail (xmit (fst r3)) = 34
      \<and> uart_circ_empty (xmit (fst r3))"
proof -
  define p where "p = (probe_port 0)\<lparr>xmit := \<lparr>buf = (\<lambda>a. of_nat a), head = 34, tail = 4090\<rparr>\<rparr>"
  define r1 where "r1 = ch43x_handle_tx linux_core p zero_chip"
  define r2 where "r2 = ch43x_handle_tx linux_core (fst r1) (snd r1)"
  define r3 where "r3 = ch43x_handle_tx linux_core (fst r2) (snd r2)"
  have sz: "UART_XMIT_SIZE linux_core = 2 ^ 12" by (simp add: linux_core_def)
  have big: "(40 :: int) < 2 ^ 12" by simp
  have t: "0 \<le> tail (xmit p)" "tail (xmit p) < 2 ^ 12" by (simp_all add: p_def)
  have h: "head (xmit p) = (tail (xmit p) + 40) mod 2 ^ 12" by (simp add: p_def)
  have x: "x_char p = 0" "\<not> tx_stopped p" by (simp_all add: p_def probe_port_def)
  note w = tx_drain_40_bytes [OF sz big t h x, of zero_chip, unfolded Let_def,
      folded r1_def, folded r2_def, folded r3_def]
  have t0: "tail (xmit p) = 4090" by (simp add: p_def)
  have t1: "tail (xmit (fst r1)) = 10" using w t0 by simp
  have t2: "tail (xmit (fst r2)) = 26" using w t1 by simp
  have t3: "tail (xmit (fst r3)) = 34" using w t2 by simp
  have len: "map length (bursts (trace (snd r3))) = [16, 16, 8]"
    using w by (simp add: zero_chip_def length_ring_bytes)
  have e: "uart_circ_empty (xmit (fst r3))" using w by simp
  show ?thesis
    unfolding Let_def p_def [symmetric] r1_def [symmetric] r2_def [symmetric] r3_def [symmetric]
    using len t1 t2 t3 e by simp
qed

subsection \<open>Receive classification\<close>

text \<open>The tests of the line status bits, read as bits of the word.\<close>

lemma lsr_tests:
  "((w :: u32) AND CH43X_LSR_OE_BIT = 0) = (\<not> bit w 1)"
  "(w AND CH43X_LSR_PE_BIT = 0) = (\<not> bit w 2)"
  "(w AND CH43X_LSR_FE_BIT = 0) = (\<not> bit w 3)"
  "(w AND CH43X_LSR_BI_BIT = 0) = (\<not> bit w 4)"
  using and_exp_eq_0_iff_not_bit [of w 1] and_exp_eq_0_iff_not_bit [of w 2]
    and_exp_eq_0_iff_not_bit [of w 3] and_exp_eq_0_iff_not_bit [of w 4]
  by (simp_all add: bit_defs)

lemma lsr_error_test:
  "((w :: u32) AND CH43X_LSR_BRK_ERROR_MASK = 0) = (\<not> bit w 1 \<and> \<not> bit w 2 \<and> \<not> bit w 3 \<and> \<not> bit w 4)"
proof -
  have m: "(CH43X_LSR_BRK_ERROR_MASK :: u32) = 2 ^ 1 OR 2 ^ 2 OR 2 ^ 3 OR 2 ^ 4"
    by (simp add: bit_defs)
  have "w AND CH43X_LSR_BRK_ERROR_MASK = (w AND 2 ^ 1) OR (w AND 2 ^ 2) OR (w AND 2 ^ 3) OR (w AND 2 ^ 4)"
    by (simp only: m bit.conj_disj_distrib)
  then show ?thesis
    by (simp only: or_eq_0_iff and_exp_eq_0_iff_not_bit)
qed

lemma lsr_bit_iff:
  "bit (CH43X_LSR_OE_BIT :: u32) n = (n = 1)"
  "bit (CH43X_LSR_PE_BIT :: u32) n = (n = 2)"
  "bit (CH43X_LSR_FE_BIT :: u32) n = (n = 3)"
  "bit (CH43X_LSR_BI_BIT :: u32) n = (n = 4)"
proof -
  have e: "(CH43X_LSR_OE_BIT :: u32) = 2 ^ 1" "(CH43X_LSR_PE_BIT :: u32) = 2 ^ 2"
    "(CH43X_LSR_FE_BIT :: u32) = 2 ^ 3" "(CH43X_LSR_BI_BIT :: u32) = 2 ^ 4"
    by (simp_all add: bit_defs)
  show "bit (CH43X_LSR_OE_BIT :: u32) n = (n = 1)" "bit (CH43X_LSR_PE_BIT :: u32) n = (n = 2)"
    "bit (CH43X_LSR_FE_BIT :: u32) n = (n = 3)" "bit (CH43X_LSR_BI_BIT :: u32) n = (n = 4)"
    unfolding e bit_exp_iff by auto
qed

lemma bit_not_lsr_iff:
  "bit (NOT (CH43X_LSR_PE_BIT :: u32)) n = (n < 32 \<and> n \<noteq> 2)"
  "bit (NOT (CH43X_LSR_FE_BIT :: u32)) n = (n < 32 \<and> n \<noteq> 3)"
  by (auto simp add: bit_not_iff lsr_bit_iff)

lemmas lsr_bits = bit_and_iff bit_or_iff lsr_bit_iff bit_not_lsr_iff

lemma rx_flag_bits:
  "rx_flag w = (if bit w 4 then TTY_BREAK else if bit w 2 then TTY_PARITY
                else if bit w 3 then TTY_FRAME else TTY_NORMAL)"
  by (simp add: rx_flag_def lsr_tests)

lemma rx_flag_not_overrun: "rx_flag w \<noteq> TTY_OVERRUN"
  by (simp add: rx_flag_def)
lemma set_termios_read_status_mask:
  "read_status_mask (port (fst (snd (ch43x_set_termios k c one t s)))) =
     termios_read_status_mask k (c_iflag t)"
  by (simp add: ch43x_set_termios_def Let_def split: sum.split)

lemma mask_without_inpck:
  assumes "ifl AND INPCK k = 0"
  shows "\<not> bit (termios_read_status_mask k ifl) 2 \<and> \<not> bit (termios_read_status_mask k ifl) 3"
  using assms by (simp add: termios_read_status_mask_def Let_def lsr_bits)
lemma example_mask_plain:
  "read_status_mask (port (fst (snd (ch43x_set_termios linux_termbits linux_core (probe_one 0)
       \<lparr>c_iflag = 0, c_cflag = 0xB0\<rparr> zero_chip)))) = 0x02"
  by (simp add: set_termios_read_status_mask termios_read_status_mask_def linux_termbits_def bit_defs)

lemma example_mask_brkint:
  "read_status_mask (port (fst (snd (ch43x_set_termios linux_termbits linux_core (probe_one 0)
       \<lparr>c_iflag = 0x02, c_cflag = 0xB0\<rparr> zero_chip)))) = 0x12"
  by (simp add: set_termios_read_status_mask termios_read_status_mask_def linux_termbits_def bit_defs)
lemma example_icount_plain:
  "icount (port (fst (snd (ch43x_set_termios linux_termbits linux_core (probe_one 0)
       \<lparr>c_iflag = 0, c_cflag = 0xB0\<rparr> zero_chip)))) = zero_icount"
  by (simp add: ch43x_set_termios_def Let_def probe_one_def probe_port_def split: sum.split)

text \<open>
  C3, as the specification states it: with break, parity and frame all set, the delivered
  flag is the break flag. Not when the read status mask leaves the break bit out: after
  a configuration with no input flags the mask is the overrun bit alone, and a byte
  with status \<open>0x1D\<close> is delivered with the normal flag.
\<close>

theorem rx_break_masked_is_normal:
  "trace (snd (ch43x_rx_char linux_core 0x1D 0x41
       (port (fst (snd (ch43x_set_termios linux_termbits linux_core (probe_one 0)
             \<lparr>c_iflag = 0, c_cflag = 0xB0\<rparr> zero_chip)))) zero_chip))
     = [Uart_Insert_Char 0 CH43X_LSR_OE_BIT 0x41 TTY_NORMAL]"
proof -
  define p where "p = port (fst (snd (ch43x_set_termios linux_termbits linux_core (probe_one 0)
             \<lparr>c_iflag = 0, c_cflag = 0xB0\<rparr> zero_chip)))"
  have pm: "read_status_mask p = 0x02" unfolding p_def by (rule example_mask_plain)
  have hk: "\<not> uart_handle_sysrq_char linux_core q ch" "\<not> uart_handle_break linux_core q" for q ch
    by (simp_all add: linux_core_def)
  have "trace (snd (ch43x_rx_char linux_core 0x1D 0x41 p zero_chip))
     = [Uart_Insert_Char 0 CH43X_LSR_OE_BIT 0x41 TTY_NORMAL]"
    by (simp add: ch43x_rx_char_def Let_def rx_insert_def rx_flag_def hk pm zero_chip_def bit_defs)
  then show ?thesis unfolding p_def .
qed

text \<open>
  C3, amended: when the status of a received byte has the break bit set (in particular
  when break, parity and frame are all set), the receive and break counters are the only
  ones incremented, so neither the frame nor the parity counter moves. The byte is
  dropped when the break hook or the sysrq hook consumes it; otherwise it is delivered
  with the parity and frame bits cleared from the status, and its flag is the break flag
  when the read status mask contains the break bit and the normal flag when it does
  not: never parity or frame.
\<close>

theorem rx_break_priority:
  assumes "lsr AND CH43X_LSR_BI_BIT \<noteq> 0"
  shows "icount (fst (ch43x_rx_char c lsr ch p s)) =
           (icount p)\<lparr>rx := rx (icount p) + 1, brk := brk (icount p) + 1\<rparr>
       \<and> trace (snd (ch43x_rx_char c lsr ch p s)) =
           (if uart_handle_break c (fst (ch43x_rx_char c lsr ch p s))
               \<or> uart_handle_sysrq_char c (fst (ch43x_rx_char c lsr ch p s)) ch
            then trace s
            else trace s @
              [Uart_Insert_Char
                 ((lsr AND NOT (CH43X_LSR_FE_BIT OR CH43X_LSR_PE_BIT)) AND read_status_mask p)
                 CH43X_LSR_OE_BIT ch
                 (if read_status_mask p AND CH43X_LSR_BI_BIT \<noteq> 0 then TTY_BREAK else TTY_NORMAL)])"
  using assms
  by (simp add: ch43x_rx_char_def Let_def rx_insert_def rx_flag_bits lsr_tests lsr_error_test
      lsr_bits)

theorem rx_break_priority_witness:
  "icount (fst (ch43x_rx_char linux_core 0x1D 0x41
       ((probe_port 0)\<lparr>read_status_mask := 0x12\<rparr>) zero_chip))
     = \<lparr>rx = 1, tx = 0, frame = 0, overrun = 0, parity = 0, brk = 1\<rparr>
   \<and> trace (snd (ch43x_rx_char linux_core 0x1D 0x41
       ((probe_port 0)\<lparr>read_status_mask := 0x12\<rparr>) zero_chip))
     = [Uart_Insert_Char 0x10 CH43X_LSR_OE_BIT 0x41 TTY_BREAK]"
  using rx_break_priority [of "0x1D" linux_core "0x41" "(probe_port 0)\<lparr>read_status_mask := 0x12\<rparr>" zero_chip]
  by (simp add: linux_core_def probe_port_def zero_chip_def zero_icount_def bit_defs)

text \<open>
  C7, as the specification states it: the overrun counter is incremented whatever other
  error bits are set. It is not: a byte with overrun and parity error both set (status
  \<open>0x07\<close>) increments the parity counter and leaves the overrun counter at zero.
\<close>

theorem rx_overrun_with_parity_not_counted:
  "overrun (icount (fst (ch43x_rx_char linux_core 0x07 0x41 (probe_port 0) zero_chip))) = 0
   \<and> parity (icount (fst (ch43x_rx_char linux_core 0x07 0x41 (probe_port 0) zero_chip))) = 1"
  by (simp add: ch43x_rx_char_def Let_def linux_core_def probe_port_def zero_icount_def bit_defs)

text \<open>
  C7, amended: the overrun counter is incremented exactly when the overrun bit is set
  and none of the break, parity and frame bits is set on the same byte (the four tests
  are one else-if chain). The overrun bit never becomes the flag of a delivered byte.
  It reaches the sink only through the status argument, next to the overrun mask
  \<open>CH43X_LSR_OE_BIT\<close>: the sink sees the overrun bit in that status exactly when the
  line status had it and the read status mask contains it.
\<close>

theorem rx_overrun_accounting:
  "overrun (icount (fst (ch43x_rx_char c lsr ch p s))) =
     (if lsr AND CH43X_LSR_OE_BIT \<noteq> 0 \<and> lsr AND CH43X_LSR_BI_BIT = 0
         \<and> lsr AND CH43X_LSR_PE_BIT = 0 \<and> lsr AND CH43X_LSR_FE_BIT = 0
      then overrun (icount p) + 1 else overrun (icount p))
   \<and> (trace (snd (ch43x_rx_char c lsr ch p s)) = trace s
       \<or> (\<exists>st fl. trace (snd (ch43x_rx_char c lsr ch p s)) =
                     trace s @ [Uart_Insert_Char st CH43X_LSR_OE_BIT ch fl]
             \<and> fl \<noteq> TTY_OVERRUN
             \<and> (st AND CH43X_LSR_OE_BIT \<noteq> 0) =
                 (lsr AND CH43X_LSR_OE_BIT \<noteq> 0 \<and> read_status_mask p AND CH43X_LSR_OE_BIT \<noteq> 0)))"
  by (auto simp add: ch43x_rx_char_def Let_def rx_insert_def lsr_tests lsr_error_test
      rx_flag_not_overrun lsr_bits)

text \<open>
  C8, as the specification states it: with input parity checking disabled, a byte whose
  status has the parity error bit set is delivered with the normal flag. Not when the
  break bit is set as well and break reporting is requested: the request has
  \<open>BRKINT\<close> and no \<open>INPCK\<close>, the status is \<open>0x15\<close>, and the byte is delivered
  with the break flag.
\<close>

theorem rx_parity_with_break_is_break:
  "trace (snd (ch43x_rx_char linux_core 0x15 0x41
       (port (fst (snd (ch43x_set_termios linux_termbits linux_core (probe_one 0)
             \<lparr>c_iflag = 0x02, c_cflag = 0xB0\<rparr> zero_chip)))) zero_chip))
     = [Uart_Insert_Char 0x10 CH43X_LSR_OE_BIT 0x41 TTY_BREAK]
   \<and> c_iflag \<lparr>c_iflag = 0x02, c_cflag = 0xB0\<rparr> AND INPCK linux_termbits = 0"
proof -
  define p where "p = port (fst (snd (ch43x_set_termios linux_termbits linux_core (probe_one 0)
             \<lparr>c_iflag = 0x02, c_cflag = 0xB0\<rparr> zero_chip)))"
  have pm: "read_status_mask p = 0x12" unfolding p_def by (rule example_mask_brkint)
  have hk: "\<not> uart_handle_sysrq_char linux_core q ch" "\<not> uart_handle_break linux_core q" for q ch
    by (simp_all add: linux_core_def)
  have "trace (snd (ch43x_rx_char linux_core 0x15 0x41 p zero_chip))
     = [Uart_Insert_Char 0x10 CH43X_LSR_OE_BIT 0x41 TTY_BREAK]"
    by (simp add: ch43x_rx_char_def Let_def rx_insert_def rx_flag_def hk pm zero_chip_def bit_defs)
  moreover have "c_iflag \<lparr>c_iflag = 0x02, c_cflag = 0xB0\<rparr> AND INPCK linux_termbits = 0"
    by (simp add: linux_termbits_def)
  ultimately show ?thesis unfolding p_def by simp
qed

text \<open>
  C8, amended: when the configuration request has input parity checking disabled and
  the channel's read status mask is the one that configuration set, a received byte
  whose status has the parity error bit set and the break bit clear increments the
  parity counter and, unless the sysrq hook consumes it, is delivered with the normal
  flag: the mask has removed the parity and frame bits before the flag is derived.
\<close>

theorem rx_parity_filtered:
  assumes "c_iflag termios AND INPCK k = 0"
    and "read_status_mask p =
           read_status_mask (port (fst (snd (ch43x_set_termios k c0 one termios s0))))"
    and "lsr AND CH43X_LSR_PE_BIT \<noteq> 0" and "lsr AND CH43X_LSR_BI_BIT = 0"
  shows "icount (fst (ch43x_rx_char c lsr ch p s)) =
           (icount p)\<lparr>rx := rx (icount p) + 1, parity := parity (icount p) + 1\<rparr>
       \<and> trace (snd (ch43x_rx_char c lsr ch p s)) =
           (if uart_handle_sysrq_char c (fst (ch43x_rx_char c lsr ch p s)) ch then trace s
            else trace s @
              [Uart_Insert_Char (lsr AND read_status_mask p) CH43X_LSR_OE_BIT ch TTY_NORMAL])"
proof -
  have m: "\<not> bit (read_status_mask p) 2" "\<not> bit (read_status_mask p) 3"
    using mask_without_inpck [OF assms(1)] assms(2)
    by (simp_all add: set_termios_read_status_mask)
  show ?thesis
    using assms(3,4) m
    by (simp add: ch43x_rx_char_def Let_def rx_insert_def rx_flag_bits lsr_tests lsr_error_test
        lsr_bits)
qed

theorem rx_parity_filtered_witness:
  "icount (fst (ch43x_rx_char linux_core 0x05 0x41
       (port (fst (snd (ch43x_set_termios linux_termbits linux_core (probe_one 0)
             \<lparr>c_iflag = 0, c_cflag = 0xB0\<rparr> zero_chip)))) zero_chip))
     = \<lparr>rx = 1, tx = 0, frame = 0, overrun = 0, parity = 1, brk = 0\<rparr>
   \<and> trace (snd (ch43x_rx_char linux_core 0x05 0x41
       (port (fst (snd (ch43x_set_termios linux_termbits linux_core (probe_one 0)
             \<lparr>c_iflag = 0, c_cflag = 0xB0\<rparr> zero_chip)))) zero_chip))
     = [Uart_Insert_Char 0 CH43X_LSR_OE_BIT 0x41 TTY_NORMAL]"
proof -
  define p where "p = port (fst (snd (ch43x_set_termios linux_termbits linux_core (probe_one 0)
             \<lparr>c_iflag = 0, c_cflag = 0xB0\<rparr> zero_chip)))"
  have pm: "read_status_mask p = 0x02" unfolding p_def by (rule example_mask_plain)
  have pi: "icount p = zero_icount" unfolding p_def by (rule example_icount_plain)
  have h1: "c_iflag \<lparr>c_iflag = 0, c_cflag = 0xB0\<rparr> AND INPCK linux_termbits = 0" by simp
  have h3: "(0x05 :: u32) AND CH43X_LSR_PE_BIT \<noteq> 0" by (simp add: bit_defs)
  have h4: "(0x05 :: u32) AND CH43X_LSR_BI_BIT = 0" by (simp add: bit_defs)
  have sq: "\<not> uart_handle_sysrq_char linux_core q ch" for q ch
    by (simp add: linux_core_def)
  note w = rx_parity_filtered [OF h1 p_def [THEN arg_cong [of _ _ read_status_mask]] h3 h4,
      of linux_core "0x41" zero_chip]
  show ?thesis
    unfolding p_def [symmetric] using w
    by (simp add: sq pm pi zero_icount_def zero_chip_def)
qed

subsection \<open>Line configuration\<close>

lemma set_baud_keeps_lcr:
  "regs (snd (ch43x_set_baud p b s)) (CH43X_LCR_REG + line p * 8)
     = regs s (CH43X_LCR_REG + line p * 8)"
  by (simp add: ch43x_set_baud_def Let_def ch43x_port_write_def ch43x_port_read_def
      DIV_ROUND_CLOSEST_def split: sum.split)

lemma set_baud_keeps_trace:
  "e \<in> set (trace s) \<Longrightarrow> e \<in> set (trace (snd (ch43x_set_baud p b s)))"
  by (simp add: ch43x_set_baud_def Let_def ch43x_port_write_def
      DIV_ROUND_CLOSEST_def split: sum.split)

lemma set_termios_lcr_reg:
  "regs (snd (snd (snd (ch43x_set_termios k c one t s)))) (CH43X_LCR_REG + line (port one) * 8)
     = ucast (termios_lcr k (c_cflag t))"
proof -
  have "regs (snd (ch43x_set_baud p b s')) (CH43X_LCR_REG + line (port one) * 8)
          = regs s' (CH43X_LCR_REG + line (port one) * 8)"
    if "line p = line (port one)" for p b s'
    using set_baud_keeps_lcr [of p b s'] that by simp
  then show ?thesis
    by (simp add: ch43x_set_termios_def Let_def ch43x_port_update_eq
        ch43x_port_write_def ch43x_port_read_def reg_defs split: sum.split)
qed

lemma set_termios_cflag:
  "c_cflag (fst (snd (snd (ch43x_set_termios k c one t s))))
     = snd (termios_word_size k (c_cflag t AND NOT (CMSPAR k)))"
  by (simp add: ch43x_set_termios_def Let_def split: sum.split)

lemma set_termios_lcr_write:
  "Spi_Write (ch43x_wr_cmd (line (port one)) CH43X_LCR_REG) (ucast (termios_lcr k (c_cflag t)))
     \<in> set (trace (snd (snd (snd (ch43x_set_termios k c one t s)))))"
  by (simp add: ch43x_set_termios_def Let_def ch43x_port_update_eq
      ch43x_port_write_def set_baud_keeps_trace split: sum.split)

text \<open>
  The size field of the Linux flag layout has two bits, and its four values are the
  four word sizes. So on this layout the word size switch always takes one of its four
  named arms: the request's flags leave \<open>ch43x_set_termios\<close> with the mark/space
  flag cleared and nothing else changed.
\<close>

lemma and_single_bit:
  "(w :: u32) AND 2 ^ n = 0 \<or> w AND 2 ^ n = 2 ^ n"
proof (cases "bit w n")
  case True
  have "w AND 2 ^ n = 2 ^ n"
    by (rule bit_word_eqI) (auto simp add: bit_and_iff bit_exp_iff True)
  then show ?thesis ..
next
  case False
  then show ?thesis by (simp add: and_exp_eq_0_iff_not_bit)
qed

lemma linux_size_field:
  "cf AND CSIZE linux_termbits
     \<in> {CS5 linux_termbits, CS6 linux_termbits, CS7 linux_termbits, CS8 linux_termbits}"
proof -
  have s: "(0x30 :: u32) = 2 ^ 4 OR 2 ^ 5" by simp
  have "cf AND 0x30 = (cf AND 2 ^ 4) OR (cf AND 2 ^ 5)"
    unfolding s by (rule bit.conj_disj_distrib)
  then show ?thesis using and_single_bit [of cf 4] and_single_bit [of cf 5]
    by (auto simp add: linux_termbits_def)
qed

lemma linux_word_size_kept:
  "snd (termios_word_size linux_termbits cf) = cf"
  using linux_size_field [of cf] by (auto simp add: termios_word_size_def Let_def)

lemma linux_set_termios_cflag:
  "c_cflag (fst (snd (snd (ch43x_set_termios linux_termbits c one t s))))
     = c_cflag t AND NOT (CMSPAR linux_termbits)"
  by (simp add: set_termios_cflag linux_word_size_kept)

lemma termbits_ok_linux: "termbits_ok linux_termbits"
  by (simp add: termbits_ok_def linux_termbits_def)

text \<open>Disjointness and containment of flag masks, bit by bit.\<close>

lemma disjD:
  assumes "(a :: u32) AND b = 0"
  shows "\<not> (bit a n \<and> bit b n)"
proof -
  have "bit (a AND b) n = bit (0 :: u32) n" by (simp only: assms)
  then show ?thesis by (simp add: bit_and_iff)
qed

lemma withinD:
  assumes "(a :: u32) AND NOT m = 0" and "bit a n"
  shows "bit m n"
proof -
  have "bit (a AND NOT m) n = bit (0 :: u32) n" by (simp only: assms(1))
  then show ?thesis using assms(2) by (auto simp add: bit_and_iff bit_not_iff dest: bit_imp_possible_bit)
qed
lemma disj_bits: "((a :: u32) AND b = 0) = (\<forall>n. \<not> (bit a n \<and> bit b n))"
proof
  assume "a AND b = 0"
  then show "\<forall>n. \<not> (bit a n \<and> bit b n)" using disjD by blast
next
  assume "\<forall>n. \<not> (bit a n \<and> bit b n)"
  then show "a AND b = 0" by (intro bit_word_eqI) (simp add: bit_and_iff)
qed

text \<open>
  What the tests of \<open>ch43x_set_termios\<close> see in a request that encodes the
  configuration \<open>(w, q, t)\<close>, after the mark/space flag has been masked off.
\<close>

lemma request_tests:
  fixes w :: word_len and q :: parity_mode and t :: stop_len
  assumes ok: "termbits_ok k"
    and rest: "rest AND (CSIZE k OR PARENB k OR PARODD k OR CMSPAR k OR CSTOPB k) = 0"
  defines "cf \<equiv> (cflag_of_config k w q t OR rest) AND NOT (CMSPAR k)"
  shows "cf AND CSIZE k = cflag_word_len k w"
    and "cf AND PARENB k = (if q = Par_None then 0 else PARENB k)"
    and "cf AND PARODD k = (if q = Par_Odd \<or> q = Par_Mark then PARODD k else 0)"
    and "cf AND CMSPAR k = 0"
    and "cf AND CSTOPB k = (if t = Stop2 then CSTOPB k else 0)"
proof -
  have r: "\<not> (bit rest n \<and> (bit (CSIZE k) n \<or> bit (PARENB k) n \<or> bit (PARODD k) n
               \<or> bit (CMSPAR k) n \<or> bit (CSTOPB k) n))" for n
    using rest by (simp add: disj_bits bit_or_iff)
  have o: "(bit (CS5 k) n \<longrightarrow> bit (CSIZE k) n) \<and> (bit (CS6 k) n \<longrightarrow> bit (CSIZE k) n)
      \<and> (bit (CS7 k) n \<longrightarrow> bit (CSIZE k) n) \<and> (bit (CS8 k) n \<longrightarrow> bit (CSIZE k) n)
      \<and> \<not> (bit (CSIZE k) n \<and> bit (PARENB k) n) \<and> \<not> (bit (CSIZE k) n \<and> bit (PARODD k) n)
      \<and> \<not> (bit (CSIZE k) n \<and> bit (CMSPAR k) n) \<and> \<not> (bit (CSIZE k) n \<and> bit (CSTOPB k) n)
      \<and> \<not> (bit (PARENB k) n \<and> bit (PARODD k) n) \<and> \<not> (bit (PARENB k) n \<and> bit (CMSPAR k) n)
      \<and> \<not> (bit (PARENB k) n \<and> bit (CSTOPB k) n) \<and> \<not> (bit (PARODD k) n \<and> bit (CMSPAR k) n)
      \<and> \<not> (bit (PARODD k) n \<and> bit (CSTOPB k) n) \<and> \<not> (bit (CMSPAR k) n \<and> bit (CSTOPB k) n)" for n
    using ok withinD [of _ "CSIZE k" n] disjD [of _ _ n] unfolding termbits_ok_def by blast
  have b: "bit cf n = ((bit (cflag_word_len k w) n \<or> bit (cflag_parity k q) n
              \<or> bit (cflag_stop k t) n \<or> bit rest n) \<and> \<not> bit (CMSPAR k) n)" for n
    unfolding cf_def cflag_of_config_def
    by (auto simp add: bit_and_iff bit_or_iff bit_not_iff dest: bit_imp_possible_bit)
  have bw: "bit (cflag_word_len k w) n \<longrightarrow> bit (CSIZE k) n" for n
    using o [of n] by (cases w) (simp_all add: cflag_word_len_def)
  have bq: "bit (cflag_parity k q) n =
      ((q \<noteq> Par_None \<and> bit (PARENB k) n) \<or> ((q = Par_Odd \<or> q = Par_Mark) \<and> bit (PARODD k) n)
        \<or> ((q = Par_Mark \<or> q = Par_Space) \<and> bit (CMSPAR k) n))" for n
    by (cases q) (auto simp add: cflag_parity_def bit_or_iff)
  have bt: "bit (cflag_stop k t) n = (t = Stop2 \<and> bit (CSTOPB k) n)" for n
    by (cases t) (simp_all add: cflag_stop_def)
  show "cf AND CSIZE k = cflag_word_len k w"
  proof (rule bit_word_eqI)
    fix n
    show "bit (cf AND CSIZE k) n = bit (cflag_word_len k w) n"
      using r [of n] o [of n] bw [of n] by (simp add: bit_and_iff b bq bt) blast
  qed
  show "cf AND PARENB k = (if q = Par_None then 0 else PARENB k)"
  proof (rule bit_word_eqI)
    fix n
    show "bit (cf AND PARENB k) n = bit (if q = Par_None then 0 else PARENB k) n"
      using r [of n] o [of n] bw [of n] by (simp add: bit_and_iff b bq bt) blast
  qed
  show "cf AND PARODD k = (if q = Par_Odd \<or> q = Par_Mark then PARODD k else 0)"
  proof (rule bit_word_eqI)
    fix n
    show "bit (cf AND PARODD k) n = bit (if q = Par_Odd \<or> q = Par_Mark then PARODD k else 0) n"
      using r [of n] o [of n] bw [of n] by (simp add: bit_and_iff b bq bt) blast
  qed
  show "cf AND CMSPAR k = 0"
    by (rule bit_word_eqI) (simp add: bit_and_iff b)
  show "cf AND CSTOPB k = (if t = Stop2 then CSTOPB k else 0)"
  proof (rule bit_word_eqI)
    fix n
    show "bit (cf AND CSTOPB k) n = bit (if t = Stop2 then CSTOPB k else 0) n"
      using r [of n] o [of n] bw [of n] by (simp add: bit_and_iff b bq bt) blast
  qed
qed

lemma lcr_of_config:
  assumes ok: "termbits_ok k"
    and rest: "rest AND (CSIZE k OR PARENB k OR PARODD k OR CMSPAR k OR CSTOPB k) = 0"
  shows "lcr_decode (ucast (termios_lcr k (cflag_of_config k w q t OR rest)))
           = (w, supported_parity q, t)"
proof -
  let ?cf = "(cflag_of_config k w q t OR rest) AND NOT (CMSPAR k)"
  note tests = request_tests [OF ok rest, of w q t]
  have d: "CS5 k \<noteq> CS6 k" "CS5 k \<noteq> CS7 k" "CS5 k \<noteq> CS8 k" "CS6 k \<noteq> CS7 k"
    "CS6 k \<noteq> CS8 k" "CS7 k \<noteq> CS8 k" "PARENB k \<noteq> 0" "PARODD k \<noteq> 0" "CSTOPB k \<noteq> 0"
    using ok by (simp_all add: termbits_ok_def)
  have ws: "termios_word_size k ?cf =
      (case w of Bits5 \<Rightarrow> CH43X_LCR_WORD_LEN_5 | Bits6 \<Rightarrow> CH43X_LCR_WORD_LEN_6
       | Bits7 \<Rightarrow> CH43X_LCR_WORD_LEN_7 | Bits8 \<Rightarrow> CH43X_LCR_WORD_LEN_8, ?cf)"
    unfolding termios_word_size_def Let_def tests(1)
    using d by (cases w) (simp_all add: cflag_word_len_def)
  have pt: "bParityType k ?cf =
      (case q of Par_None \<Rightarrow> 0 | Par_Odd \<Rightarrow> 1 | Par_Even \<Rightarrow> 2 | Par_Mark \<Rightarrow> 1 | Par_Space \<Rightarrow> 2)"
    unfolding bParityType_def tests(2,3,4)
    using d by (cases q) simp_all
  have st: "(?cf AND CSTOPB k \<noteq> 0) = (t = Stop2)"
    unfolding tests(5) using d by simp
  have lcr: "termios_lcr k (cflag_of_config k w q t OR rest) =
      (if t = Stop2
       then termios_parity
              (case q of Par_None \<Rightarrow> 0 | Par_Odd \<Rightarrow> 1 | Par_Even \<Rightarrow> 2 | Par_Mark \<Rightarrow> 1 | Par_Space \<Rightarrow> 2)
              ((case w of Bits5 \<Rightarrow> CH43X_LCR_WORD_LEN_5 | Bits6 \<Rightarrow> CH43X_LCR_WORD_LEN_6
                | Bits7 \<Rightarrow> CH43X_LCR_WORD_LEN_7 | Bits8 \<Rightarrow> CH43X_LCR_WORD_LEN_8)
               OR CH43X_LCR_PARITY_BIT) OR CH43X_LCR_STOPLEN_BIT
       else termios_parity
              (case q of Par_None \<Rightarrow> 0 | Par_Odd \<Rightarrow> 1 | Par_Even \<Rightarrow> 2 | Par_Mark \<Rightarrow> 1 | Par_Space \<Rightarrow> 2)
              ((case w of Bits5 \<Rightarrow> CH43X_LCR_WORD_LEN_5 | Bits6 \<Rightarrow> CH43X_LCR_WORD_LEN_6
                | Bits7 \<Rightarrow> CH43X_LCR_WORD_LEN_7 | Bits8 \<Rightarrow> CH43X_LCR_WORD_LEN_8)
               OR CH43X_LCR_PARITY_BIT))"
    unfolding termios_lcr_def Let_def ws fst_conv snd_conv pt st by simp
  show ?thesis
    unfolding lcr
    by (cases w; cases q; cases t)
       (simp_all add: lcr_decode_def lcr_word_len_def lcr_parity_def lcr_stop_def
          termios_parity_def supported_parity_def bit_defs)
qed

text \<open>
  The parity switch of \<open>ch43x_set_termios\<close> has an arm for mark parity (type 3) and
  one for space parity (type 4), and the bytes they compose read back as mark and as
  space. A request for mark parity selects type 3 as long as its mark/space flag is
  there; the function clears that flag first, and from then on the type is at most 2.
\<close>

lemma parity_switch_mark_space:
  "lcr_decode (ucast (termios_parity 3 (CH43X_LCR_WORD_LEN_8 OR CH43X_LCR_PARITY_BIT)))
     = (Bits8, Par_Mark, Stop1)"
  "lcr_decode (ucast (termios_parity 4 (CH43X_LCR_WORD_LEN_8 OR CH43X_LCR_PARITY_BIT)))
     = (Bits8, Par_Space, Stop1)"
  by (simp_all add: lcr_decode_def lcr_word_len_def lcr_parity_def lcr_stop_def
      termios_parity_def bit_defs)

lemma parity_type_masked: "bParityType k (cf AND NOT (CMSPAR k)) \<le> 2"
  by (simp add: bParityType_def and.assoc)

lemma mark_request_flags:
  "cflag_of_config linux_termbits Bits8 Par_Mark Stop1 OR 0x80 = 0x400003B0"
  "cflag_of_config linux_termbits Bits8 Par_Space Stop1 OR 0x80 = 0x400001B0"
  by (simp_all add: cflag_of_config_def cflag_word_len_def cflag_parity_def cflag_stop_def
      linux_termbits_def)

lemma mark_request_parity_type:
  "bParityType linux_termbits 0x400003B0 = 3"
  "bParityType linux_termbits (0x400003B0 AND NOT (CMSPAR linux_termbits)) = 1"
  "bParityType linux_termbits 0x400001B0 = 4"
  "bParityType linux_termbits (0x400001B0 AND NOT (CMSPAR linux_termbits)) = 2"
  by (simp_all add: bParityType_def linux_termbits_def)

lemma mark_request_lcr:
  "termios_lcr linux_termbits 0x400003B0 = 0x0B"
  "termios_lcr linux_termbits 0x400001B0 = 0x1B"
  by (simp_all add: termios_lcr_def termios_word_size_def Let_def bParityType_def
      termios_parity_def linux_termbits_def bit_defs)

text \<open>
  C5, at a request for eight data bits, mark parity and one stop bit (with the receiver
  enabled, the flags \<open>0x400003B0\<close> of the Linux layout): the line control byte that
  \<open>ch43x_set_termios\<close> writes reads back as eight bits, odd parity and one stop bit.
  The word length and the stop length are recovered, the parity is not.
\<close>

theorem lcr_mark_parity_not_recovered:
  "lcr_decode (regs (snd (snd (snd (ch43x_set_termios linux_termbits linux_core (probe_one 0)
       \<lparr>c_iflag = 0, c_cflag = cflag_of_config linux_termbits Bits8 Par_Mark Stop1 OR 0x80\<rparr>
       zero_chip)))) (CH43X_LCR_REG + 0 * 8)) = (Bits8, Par_Odd, Stop1)"
proof -
  have r: "(0x80 :: u32) AND (CSIZE linux_termbits OR PARENB linux_termbits OR PARODD linux_termbits
      OR CMSPAR linux_termbits OR CSTOPB linux_termbits) = 0"
    by (simp add: linux_termbits_def)
  have l: "line (port (probe_one 0)) = 0" by (simp add: probe_one_def)
  have e: "regs (snd (snd (snd (ch43x_set_termios linux_termbits linux_core (probe_one 0) tm zero_chip))))
      CH43X_LCR_REG = ucast (termios_lcr linux_termbits (c_cflag tm))" for tm
    using set_termios_lcr_reg [of linux_termbits linux_core "probe_one 0" tm zero_chip]
    by (simp add: l)
  show ?thesis
    using lcr_of_config [OF termbits_ok_linux r, of Bits8 Par_Mark Stop1]
    by (simp add: e supported_parity_def)
qed

text \<open>
  The same run for space parity, which is programmed as even parity.
\<close>

lemma lcr_space_parity_programmed_even:
  "lcr_decode (regs (snd (snd (snd (ch43x_set_termios linux_termbits linux_core (probe_one 0)
       \<lparr>c_iflag = 0, c_cflag = cflag_of_config linux_termbits Bits8 Par_Space Stop1 OR 0x80\<rparr>
       zero_chip)))) (CH43X_LCR_REG + 0 * 8)) = (Bits8, Par_Even, Stop1)"
proof -
  have r: "(0x80 :: u32) AND (CSIZE linux_termbits OR PARENB linux_termbits OR PARODD linux_termbits
      OR CMSPAR linux_termbits OR CSTOPB linux_termbits) = 0"
    by (simp add: linux_termbits_def)
  have l: "line (port (probe_one 0)) = 0" by (simp add: probe_one_def)
  have e: "regs (snd (snd (snd (ch43x_set_termios linux_termbits linux_core (probe_one 0) tm zero_chip))))
      CH43X_LCR_REG = ucast (termios_lcr linux_termbits (c_cflag tm))" for tm
    using set_termios_lcr_reg [of linux_termbits linux_core "probe_one 0" tm zero_chip]
    by (simp add: l)
  show ?thesis
    using lcr_of_config [OF termbits_ok_linux r, of Bits8 Par_Space Stop1]
    by (simp add: e supported_parity_def)
qed

text \<open>
  What the code programs for every request: for every word length in 5..8, every parity
  and both stop lengths, the line control byte that \<open>ch43x_set_termios\<close> writes (and
  that the register holds afterwards) reads back as the requested word length and stop
  length; the parity reads back as requested for none, odd and even, as odd for mark
  and as even for space. Other flags of the request (\<open>rest\<close>) do not matter.
\<close>

lemma lcr_round_trip:
  assumes "termbits_ok k"
    and "c_cflag termios = cflag_of_config k w q t OR rest"
    and "rest AND (CSIZE k OR PARENB k OR PARODD k OR CMSPAR k OR CSTOPB k) = 0"
  shows "lcr_decode (regs (snd (snd (snd (ch43x_set_termios k c one termios s))))
                       (CH43X_LCR_REG + line (port one) * 8))
           = (w, supported_parity q, t)
       \<and> Spi_Write (ch43x_wr_cmd (line (port one)) CH43X_LCR_REG)
            (regs (snd (snd (snd (ch43x_set_termios k c one termios s))))
               (CH43X_LCR_REG + line (port one) * 8))
            \<in> set (trace (snd (snd (snd (ch43x_set_termios k c one termios s)))))"
  using lcr_of_config [OF assms(1,3), of w q t] set_termios_lcr_write [of one k termios c s]
  by (simp add: set_termios_lcr_reg assms(2))

lemma lcr_round_trip_example:
  "lcr_decode (regs (snd (snd (snd (ch43x_set_termios linux_termbits linux_core (probe_one 0)
       \<lparr>c_iflag = 0, c_cflag = cflag_of_config linux_termbits Bits7 Par_Even Stop2 OR 0x80\<rparr>
       zero_chip)))) (CH43X_LCR_REG + 0 * 8)) = (Bits7, Par_Even, Stop2)"
  using lcr_round_trip [of linux_termbits
      "\<lparr>c_iflag = 0, c_cflag = cflag_of_config linux_termbits Bits7 Par_Even Stop2 OR 0x80\<rparr>"
      Bits7 Par_Even Stop2 "0x80" linux_core "probe_one 0" zero_chip]
    termbits_ok_linux
  by (simp add: supported_parity_def linux_termbits_def probe_one_def probe_port_def)

subsection \<open>The receive loop\<close>

text \<open>
  Runs of \<open>ch43x_handle_rx\<close> on given answers of the chip. A data interrupt: the
  status is polled until data is ready (\<open>0x60\<close>, then \<open>0x61\<close>), the byte \<open>0x41\<close>
  is read and delivered, the next status shows no data, and the buffer is pushed once.
  If the chip never shows data ready within the answers, the call has not returned.
  A line status interrupt with an error in the FIFO reads the byte at once. Whenever a
  single byte is drained, the call is the loop body for that byte followed by the push.
\<close>

lemma handle_rx_one_byte:
  "ch43x_handle_rx linux_core CH43X_IIR_RDI_SRC [0x60, 0x61, 0x41, 0x60] (probe_port 0) zero_chip =
     Some ((probe_port 0)\<lparr>icount := zero_icount\<lparr>rx := 1\<rparr>\<rparr>,
           zero_chip\<lparr>trace := [Uart_Insert_Char 0x61 CH43X_LSR_OE_BIT 0x41 TTY_NORMAL,
                               Tty_Flip_Buffer_Push]\<rparr>)"
  by (simp add: ch43x_handle_rx_def rx_normal_def rx_finish_def ch43x_rx_char_def rx_insert_def
      Let_def linux_core_def probe_port_def zero_chip_def zero_icount_def bit_defs)

lemma handle_rx_never_ready:
  "ch43x_handle_rx linux_core CH43X_IIR_RDI_SRC [0x60, 0x60] (probe_port 0) zero_chip = None"
  by (simp add: ch43x_handle_rx_def rx_normal_def bit_defs)

lemma handle_rx_line_status_path:
  "ch43x_handle_rx linux_core CH43X_IIR_RLSE_SRC [0x95, 0x00, 0x60]
      ((probe_port 0)\<lparr>read_status_mask := 0x12\<rparr>) zero_chip =
     Some ((probe_port 0)\<lparr>read_status_mask := 0x12, icount := zero_icount\<lparr>rx := 1, brk := 1\<rparr>\<rparr>,
           zero_chip\<lparr>trace := [Uart_Insert_Char 0x10 CH43X_LSR_OE_BIT 0x00 TTY_BREAK,
                               Tty_Flip_Buffer_Push]\<rparr>)"
  by (simp add: ch43x_handle_rx_def rx_normal_def rx_finish_def ch43x_rx_char_def rx_insert_def
      rx_flag_def Let_def linux_core_def probe_port_def zero_chip_def zero_icount_def bit_defs)

lemma handle_rx_forced_read:
  assumes "(ucast a :: u32) AND CH43X_LSR_FIFOE_BIT \<noteq> 0"
    and "(ucast l :: u32) AND CH43X_LSR_DR_BIT = 0"
  shows "ch43x_handle_rx c CH43X_IIR_RLSE_SRC (a # b # l # rest) p s =
           rx_finish (Some (ch43x_rx_char c (ucast a) (ucast b) p s))"
  using assms by (cases rest) (simp_all add: ch43x_handle_rx_def Let_def)

lemma handle_rx_polled_read:
  assumes "iir \<noteq> CH43X_IIR_RLSE_SRC"
    and "(ucast a :: u32) AND CH43X_LSR_DR_BIT \<noteq> 0"
    and "(ucast l :: u32) AND CH43X_LSR_DR_BIT = 0"
  shows "ch43x_handle_rx c iir (a # b # l # rest) p s =
           rx_finish (Some (ch43x_rx_char c (ucast a) (ucast b) p s))"
  using assms by (cases rest) (simp_all add: ch43x_handle_rx_def rx_normal_def Let_def)

end
